theory Spec2Isabelle
  imports Main
begin

section \<open>Data model\<close>

text \<open>
  Object ids of the document store are modelled as natural numbers. A request carries an
  id as text (a route parameter or a body field): it is either missing, text that does not
  denote an object id (\<open>ObjectId.isValid\<close> is false, a cast of it raises \<open>CastError\<close>), or
  a text of an object id. Where a handler casts the text (\<open>findById\<close>, \<open>ObjectId(...)\<close>) only
  the id it casts to matters, and that is what \<open>idParam\<close> keeps.
\<close>

type_synonym oid = nat

datatype idParam = Missing | Malformed | Oid oid

text \<open>
  The team controller also compares the \<open>memberId\<close> of a request body as text with the
  text of a stored member id, which \<open>ObjectId.toString\<close> gives as 24 lower-case hex digits.
  For such a field the model keeps, with the id the text casts to, whether the text is
  that canonical text or another text of the same id (upper-case hex digits, for one).
\<close>

datatype idForm = CanonicalText | OtherText

datatype memberIdParam = NoMemberId | BadMemberId | MemberId oid idForm

text \<open>The cast that \<open>User.findById(memberId)\<close> and \<open>team.members.push(memberId)\<close> make.\<close>

definition castMemberId :: "memberIdParam \<Rightarrow> idParam" where
  "castMemberId p =
     (case p of NoMemberId \<Rightarrow> Missing | BadMemberId \<Rightarrow> Malformed | MemberId i f \<Rightarrow> Oid i)"

text \<open>The comparison of the request's text with a member id's text: \<open>memberId == member\<close>
  inside \<open>team.members.includes(memberId)\<close>, and \<open>member.toString() === memberId\<close> in the
  filter of \<open>removeTeamMember\<close>. Only the canonical text of the member's id is equal.\<close>

definition memberIdMatches :: "memberIdParam \<Rightarrow> oid \<Rightarrow> bool" where
  "memberIdMatches memberIdP m = (memberIdP = MemberId m CanonicalText)"

text \<open>
  A response is the HTTP status the handler sets (200, 201, 400, 401, 403, 404, 500) and
  the data of the JSON envelope, when there is one. The \<open>success\<close> flag of the envelope is
  true exactly for 200 and 201 and the message texts are left out.
\<close>

datatype 'a response = Response (status: nat) (payload: "'a option")

text \<open>
  Modelled from the spec: the User model (models/User) is not among the sources. The
  handlers read \<open>_id\<close>, \<open>role\<close> and \<open>email\<close> of a user; the role is the text the handlers
  compare with \<open>'admin'\<close>, \<open>'team_leader'\<close> and \<open>'team_member'\<close>.
\<close>

record user =
  u_id :: oid
  role :: string
  email :: string

text \<open>
  Modelled from the spec: the Team model (models/Team) is not among the sources. The
  fields are those the handlers read and write; \<open>teamLeader\<close> is nullable.
\<close>

record team =
  t_id :: oid
  t_siteName :: string
  t_location :: string
  t_description :: string
  isNewSite :: bool
  teamLeader :: "oid option"
  members :: "oid list"
  t_status :: string
  t_createdAt :: nat

text \<open>The Rack schema of models/Rack.js, with the timestamp \<open>createdAt\<close> that the schema
  option \<open>timestamps\<close> adds. Numbers are modelled as integers.\<close>

record rack =
  r_id :: oid
  rackNo :: string
  partNo :: string
  r_mrp :: "int option"
  nextQty :: int
  r_location :: string
  r_siteName :: string
  scannedBy :: oid
  r_team :: oid
  masterDescription :: "string option"
  r_ndp :: "int option"
  r_createdAt :: nat

text \<open>
  Modelled from the spec: the MasterDescription model (models/Materialdesc) is not among
  the sources. The fields are those written by the upload and read by the joins and by the
  deletion query (\<open>uploadedFileId\<close> is only ever read).
\<close>

record masterDesc =
  md_partNo :: string
  md_description :: string
  md_ndp :: "int option"
  md_mrp :: "int option"
  uploadBatch :: "string option"
  fileId :: "oid option"
  uploadedFileId :: "oid option"

text \<open>
  Modelled from the spec: the UploadMetadata model (models/uploadmetadata) is not among
  the sources. \<open>recordCount\<close> is unset until the upload stamps it.
\<close>

record uploadMeta =
  um_id :: oid
  filename :: string
  totalReceived :: "nat option"
  recordCount :: "nat option"
  uploadedBy :: "oid option"
  uploadedByEmail :: "string option"
  uploadDate :: nat

text \<open>The ExportedRack schema of the snapshot model.\<close>

record exportedRack =
  sNo :: int
  e_location :: string
  e_rackNo :: string
  e_partNo :: string
  e_nextQty :: int
  e_mrp :: "int option"
  e_ndp :: "int option"
  materialDescription :: string
  exportedAt :: nat
  e_team :: oid
  e_siteName :: string
  exportedBy :: oid

text \<open>The store: one list of documents per collection, in insertion order.\<close>

record db =
  users :: "user list"
  teams :: "team list"
  racks :: "rack list"
  masterDescriptions :: "masterDesc list"
  uploadMetadatas :: "uploadMeta list"
  exportedRacks :: "exportedRack list"

text \<open>Writes on one document: \<open>updateOne\<close> and \<open>deleteOne\<close> act on the first document that
  matches (the store keeps \<open>_id\<close> unique, so a match on \<open>_id\<close> is the only one).\<close>

primrec updateOne :: "('a \<Rightarrow> bool) \<Rightarrow> ('a \<Rightarrow> 'a) \<Rightarrow> 'a list \<Rightarrow> 'a list" where
  "updateOne P f [] = []"
| "updateOne P f (x # xs) = (if P x then f x # xs else x # updateOne P f xs)"

primrec deleteOne :: "('a \<Rightarrow> bool) \<Rightarrow> 'a list \<Rightarrow> 'a list" where
  "deleteOne P [] = []"
| "deleteOne P (x # xs) = (if P x then xs else x # deleteOne P xs)"

section \<open>Middleware\<close>

text \<open>\<open>authorize(roles)\<close> of middleware/authMiddleware.js, in front of a handler \<open>next\<close>. The
  principal is what \<open>protect\<close> left in \<open>req.user\<close>: \<open>None\<close> when it resolved no user.\<close>

definition authorize ::
  "string list \<Rightarrow> user option \<Rightarrow> (user \<Rightarrow> 'a response \<times> db) \<Rightarrow> db \<Rightarrow> 'a response \<times> db" where
  "authorize roles reqUser next st =
     (case reqUser of
        None \<Rightarrow> (Response 401 None, st)
      | Some u \<Rightarrow>
          if role u \<notin> set roles then (Response 403 None, st)
          else next u)"

section \<open>Team controller\<close>

definition isTeamLeaderOrAdmin :: "user \<Rightarrow> team \<Rightarrow> bool" where
  "isTeamLeaderOrAdmin u t =
     (role u = ''admin'' \<or>
      (role u = ''team_leader'' \<and> teamLeader t = Some (u_id u)))"

text \<open>\<open>Team.findById\<close> and \<open>User.findById\<close>: a missing id finds nothing, an id that does not
  cast raises (the handlers catch it and answer 500).\<close>

definition findTeamById :: "db \<Rightarrow> oid \<Rightarrow> team option" where
  "findTeamById st i = find (\<lambda>t. t_id t = i) (teams st)"

definition findUserById :: "db \<Rightarrow> oid \<Rightarrow> user option" where
  "findUserById st i = find (\<lambda>u. u_id u = i) (users st)"

text \<open>\<open>team.save()\<close>: the stored document with the team's id is replaced.\<close>

definition saveTeam :: "db \<Rightarrow> team \<Rightarrow> db" where
  "saveTeam st t' = st\<lparr>teams := updateOne (\<lambda>t. t_id t = t_id t') (\<lambda>t. t') (teams st)\<rparr>"

text \<open>
  \<open>addTeamMember\<close>. \<open>saveOk\<close> tells whether the store accepts the write; a refused write is
  caught and answered with 500. The populated copy in the answer is modelled by the saved
  team itself. The user is looked up by the id the text casts to; the duplicate test
  \<open>team.members.includes(memberId)\<close> compares the text; \<open>push\<close> stores the id.
\<close>

definition addTeamMember ::
  "bool \<Rightarrow> db \<Rightarrow> user \<Rightarrow> idParam \<Rightarrow> memberIdParam \<Rightarrow> team response \<times> db" where
  "addTeamMember saveOk st u teamIdP memberIdP =
     (case teamIdP of
        Malformed \<Rightarrow> (Response 500 None, st)
      | Missing \<Rightarrow> (Response 404 None, st)
      | Oid teamId \<Rightarrow>
          (case findTeamById st teamId of
             None \<Rightarrow> (Response 404 None, st)
           | Some t \<Rightarrow>
               if \<not> isTeamLeaderOrAdmin u t then (Response 403 None, st)
               else
                 (case castMemberId memberIdP of
                    Malformed \<Rightarrow> (Response 500 None, st)
                  | Missing \<Rightarrow> (Response 404 None, st)
                  | Oid memberId \<Rightarrow>
                      (case findUserById st memberId of
                         None \<Rightarrow> (Response 404 None, st)
                       | Some memberUser \<Rightarrow>
                           if role memberUser \<noteq> ''team_member'' then (Response 400 None, st)
                           else if list_ex (memberIdMatches memberIdP) (members t)
                           then (Response 400 None, st)
                           else if \<not> saveOk then (Response 500 None, st)
                           else
                             (let t' = t\<lparr>members := members t @ [memberId]\<rparr>
                              in (Response 200 (Some t'), saveTeam st t'))))))"

text \<open>
  \<open>removeTeamMember\<close>. The filter compares the text of each member id with the text of the
  request, so a missing or malformed \<open>memberId\<close>, or one that is not the canonical text of
  a member's id, removes nothing.
\<close>

definition removeTeamMember ::
  "bool \<Rightarrow> db \<Rightarrow> user \<Rightarrow> idParam \<Rightarrow> memberIdParam \<Rightarrow> team response \<times> db" where
  "removeTeamMember saveOk st u teamIdP memberIdP =
     (case teamIdP of
        Malformed \<Rightarrow> (Response 500 None, st)
      | Missing \<Rightarrow> (Response 404 None, st)
      | Oid teamId \<Rightarrow>
          (case findTeamById st teamId of
             None \<Rightarrow> (Response 404 None, st)
           | Some t \<Rightarrow>
               if \<not> isTeamLeaderOrAdmin u t then (Response 403 None, st)
               else
                 (let initialLength = length (members t);
                      t' = t\<lparr>members := filter (\<lambda>m. \<not> memberIdMatches memberIdP m) (members t)\<rparr>
                  in if length (members t') = initialLength then (Response 400 None, st)
                     else if \<not> saveOk then (Response 500 None, st)
                     else (Response 200 (Some t'), saveTeam st t'))))"

text \<open>\<open>completeTeamWork\<close>.\<close>

definition completeTeamWork ::
  "bool \<Rightarrow> db \<Rightarrow> user \<Rightarrow> idParam \<Rightarrow> team response \<times> db" where
  "completeTeamWork saveOk st u teamIdP =
     (case teamIdP of
        Malformed \<Rightarrow> (Response 500 None, st)
      | Missing \<Rightarrow> (Response 404 None, st)
      | Oid teamId \<Rightarrow>
          (case findTeamById st teamId of
             None \<Rightarrow> (Response 404 None, st)
           | Some t \<Rightarrow>
               (let isAuthorized =
                      (role u = ''admin'' \<or>
                       (role u = ''team_leader'' \<and> teamLeader t = Some (u_id u)))
                in if \<not> isAuthorized then (Response 403 None, st)
                   else
                     (let t' = t\<lparr>members := [], teamLeader := None, t_status := ''Completed''\<rparr>
                      in if \<not> saveOk then (Response 500 None, st)
                         else (Response 200 (Some t'), saveTeam st t')))))"

section \<open>Rack controller\<close>

text \<open>A JavaScript string in a condition: \<open>undefined\<close> and the empty string are falsy.\<close>

definition falsy :: "string option \<Rightarrow> bool" where
  "falsy v = (v = None \<or> v = Some [])"

record createRackBody =
  b_rackNo :: "string option"
  b_partNo :: "string option"
  b_nextQty :: "int option"
  b_siteName :: "string option"
  b_location :: "string option"

text \<open>The \<open>enum\<close> validator of the schema's \<open>location\<close>.\<close>

definition locationEnum :: "string list" where
  "locationEnum = [''ACCESSORIES'', ''SPARES'']"

text \<open>
  \<open>createRack\<close>. \<open>newId\<close> and \<open>now\<close> are the \<open>_id\<close> and the timestamp the store gives the new
  document, \<open>insertOk\<close> tells whether the store accepts the insert. The handler is wrapped in
  \<open>asyncHandler\<close>, which is not among the sources: a rejected promise (a failed schema
  validation, a refused insert) is taken to be answered with 500.
\<close>

definition createRack ::
  "bool \<Rightarrow> oid \<Rightarrow> nat \<Rightarrow> db \<Rightarrow> user \<Rightarrow> createRackBody \<Rightarrow> rack response \<times> db" where
  "createRack insertOk newId now st u b =
     (if falsy (b_rackNo b) \<or> falsy (b_partNo b) \<or> b_nextQty b = None \<or>
         falsy (b_siteName b) \<or> falsy (b_location b)
      then (Response 400 None, st)
      else
        (case find (\<lambda>t. Some (t_siteName t) = b_siteName b) (teams st) of
           None \<Rightarrow> (Response 404 None, st)
         | Some t \<Rightarrow>
             (let isAdmin = (role u = ''admin'');
                  isTeamLeader = (role u = ''team_leader'' \<and> teamLeader t = Some (u_id u));
                  isTeamMember = (role u = ''team_member'' \<and> u_id u \<in> set (members t))
              in if \<not> (isAdmin \<or> isTeamLeader \<or> isTeamMember) then (Response 403 None, st)
                 else
                   (case find (\<lambda>r. Some (partNo r) = b_partNo b \<and> Some (rackNo r) = b_rackNo b)
                           (racks st) of
                      Some existingRack \<Rightarrow> (Response 400 None, st)
                    | None \<Rightarrow>
                        (let newRack =
                               \<lparr>r_id = newId, rackNo = the (b_rackNo b), partNo = the (b_partNo b),
                                r_mrp = None, nextQty = the (b_nextQty b),
                                r_location = the (b_location b), r_siteName = the (b_siteName b),
                                scannedBy = u_id u, r_team = t_id t, masterDescription = None,
                                r_ndp = None, r_createdAt = now\<rparr>
                         in if r_location newRack \<notin> set locationEnum then (Response 500 None, st)
                            else if \<not> insertOk then (Response 500 None, st)
                            else (Response 201 (Some newRack),
                                  st\<lparr>racks := racks st @ [newRack]\<rparr>))))))"

text \<open>
  The aggregation stages \<open>$lookup\<close> followed by \<open>$unwind\<close> with
  \<open>preserveNullAndEmptyArrays\<close>: a document with no match is kept once, without the joined
  field; a document with matches is repeated once per match.
\<close>

definition lookupUnwind :: "('a \<Rightarrow> 'b list) \<Rightarrow> 'a list \<Rightarrow> ('a \<times> 'b option) list" where
  "lookupUnwind f xs =
     concat (map (\<lambda>x. case f x of [] \<Rightarrow> [(x, None)] | y # ys \<Rightarrow> map (\<lambda>z. (x, Some z)) (y # ys)) xs)"

text \<open>A document of the pipeline's result: the rack's stored fields, the three fields
  overlaid from the master description, and the joined team and user.\<close>

record rackRow =
  row_rack :: rack
  row_materialDescription :: "string option"
  row_ndp :: "int option"
  row_mrp :: "int option"
  row_team :: "team option"
  row_scannedBy :: "user option"

definition joinRacks :: "db \<Rightarrow> rack list \<Rightarrow> rackRow list" where
  "joinRacks st rs =
     map (\<lambda>((r, md), t, u).
            \<lparr>row_rack = r,
             row_materialDescription = map_option md_description md,
             row_ndp = Option.bind md md_ndp,
             row_mrp = Option.bind md md_mrp,
             row_team = t, row_scannedBy = u\<rparr>)
       (map (\<lambda>(((r, md), t), u). ((r, md), t, u))
          (lookupUnwind (\<lambda>((r, md), t). filter (\<lambda>u. u_id u = scannedBy r) (users st))
             (lookupUnwind (\<lambda>(r, md). filter (\<lambda>t. t_id t = r_team r) (teams st))
                (lookupUnwind (\<lambda>r. filter (\<lambda>m. md_partNo m = partNo r) (masterDescriptions st))
                   rs))))"

text \<open>The match filter built by \<open>getRacks\<close>: an optional condition on \<open>team\<close> and an optional
  one on \<open>siteName\<close>.\<close>

datatype teamCond = TeamIs oid | TeamIn "oid list"

record matchFilter =
  mf_team :: "teamCond option"
  mf_siteName :: "string option"

definition matches :: "matchFilter \<Rightarrow> rack \<Rightarrow> bool" where
  "matches mf r =
     ((case mf_team mf of
         None \<Rightarrow> True
       | Some (TeamIs i) \<Rightarrow> r_team r = i
       | Some (TeamIn is) \<Rightarrow> r_team r \<in> set is) \<and>
      (case mf_siteName mf of None \<Rightarrow> True | Some s \<Rightarrow> r_siteName r = s))"

record racksQuery =
  q_siteName :: "string option"
  q_teamId :: idParam

text \<open>The pipeline of \<open>getRacks\<close>: match, the three joins, newest first. Documents with the
  same \<open>createdAt\<close> keep their order here; the store promises none.\<close>

definition aggregateRacks :: "db \<Rightarrow> matchFilter \<Rightarrow> rackRow list" where
  "aggregateRacks st mf =
     sort_key (\<lambda>row. - int (r_createdAt (row_rack row)))
       (joinRacks st (filter (matches mf) (racks st)))"

definition getRacks :: "db \<Rightarrow> user option \<Rightarrow> racksQuery \<Rightarrow> rackRow list response" where
  "getRacks st reqUser q =
     (case reqUser of
        None \<Rightarrow> Response 401 None
      | Some u \<Rightarrow>
          (let siteCond = (if falsy (q_siteName q) then None else q_siteName q)
           in if role u = ''admin'' then
                (case q_teamId q of
                   Missing \<Rightarrow>
                     Response 200 (Some (aggregateRacks st \<lparr>mf_team = None, mf_siteName = siteCond\<rparr>))
                 | Malformed \<Rightarrow> Response 500 None
                 | Oid i \<Rightarrow>
                     Response 200
                       (Some (aggregateRacks st \<lparr>mf_team = Some (TeamIs i), mf_siteName = siteCond\<rparr>)))
              else if role u = ''team_leader'' then
                (let teamIds = map t_id (filter (\<lambda>t. teamLeader t = Some (u_id u)) (teams st))
                 in if teamIds = [] then Response 200 (Some [])
                    else Response 200
                           (Some (aggregateRacks st
                                    \<lparr>mf_team = Some (TeamIn teamIds), mf_siteName = siteCond\<rparr>)))
              else if role u = ''team_member'' then
                (let teamIds = map t_id (filter (\<lambda>t. u_id u \<in> set (members t)) (teams st))
                 in if teamIds = [] then Response 200 (Some [])
                    else Response 200
                           (Some (aggregateRacks st
                                    \<lparr>mf_team = Some (TeamIn teamIds), mf_siteName = siteCond\<rparr>)))
              else Response 403 None))"

text \<open>\<open>getRackById\<close>: the same joins on the rack with the given id (a valid id is cast with
  \<open>mongoose.Types.ObjectId(rackId)\<close>, taken to give the object id); the first document of
  the result is the one answered.\<close>

definition getRackById :: "db \<Rightarrow> user \<Rightarrow> idParam \<Rightarrow> rackRow response" where
  "getRackById st u rackIdP =
     (case rackIdP of
        Missing \<Rightarrow> Response 400 None
      | Malformed \<Rightarrow> Response 400 None
      | Oid rackId \<Rightarrow>
          (case joinRacks st (filter (\<lambda>r. r_id r = rackId) (racks st)) of
             [] \<Rightarrow> Response 404 None
           | row # rest \<Rightarrow>
               (let isAdmin = (role u = ''admin'');
                    isTeamLeader =
                      (case row_team row of None \<Rightarrow> False | Some t \<Rightarrow> teamLeader t = Some (u_id u));
                    isTeamMember =
                      (case row_team row of None \<Rightarrow> False | Some t \<Rightarrow> u_id u \<in> set (members t))
                in if \<not> (isAdmin \<or> isTeamLeader \<or> isTeamMember) then Response 403 None
                   else Response 200 (Some row))))"

text \<open>\<open>Rack.findById(rackId).populate('team', 'teamLeader')\<close> and the leader test of
  \<open>updateRack\<close> and \<open>deleteRack\<close> on its result.\<close>

definition findRackById :: "db \<Rightarrow> oid \<Rightarrow> rack option" where
  "findRackById st i = find (\<lambda>r. r_id r = i) (racks st)"

definition isLeaderOfRackTeam :: "db \<Rightarrow> user \<Rightarrow> rack \<Rightarrow> bool" where
  "isLeaderOfRackTeam st u r =
     (case findTeamById st (r_team r) of
        None \<Rightarrow> False
      | Some t \<Rightarrow> teamLeader t = Some (u_id u))"

text \<open>The body of an update request: the fields of the schema it supplies.\<close>

record rackUpdate =
  up_rackNo :: "string option"
  up_partNo :: "string option"
  up_mrp :: "int option"
  up_nextQty :: "int option"
  up_location :: "string option"
  up_siteName :: "string option"
  up_scannedBy :: "oid option"
  up_team :: "oid option"
  up_masterDescription :: "string option"
  up_ndp :: "int option"

definition orElse :: "'a option \<Rightarrow> 'a \<Rightarrow> 'a" where
  "orElse v d = (case v of None \<Rightarrow> d | Some x \<Rightarrow> x)"

text \<open>\<open>findByIdAndUpdate(rackId, req.body)\<close> sets every supplied field.\<close>

definition applyUpdate :: "rackUpdate \<Rightarrow> rack \<Rightarrow> rack" where
  "applyUpdate b r =
     r\<lparr>rackNo := orElse (up_rackNo b) (rackNo r),
       partNo := orElse (up_partNo b) (partNo r),
       r_mrp := (case up_mrp b of None \<Rightarrow> r_mrp r | Some v \<Rightarrow> Some v),
       nextQty := orElse (up_nextQty b) (nextQty r),
       r_location := orElse (up_location b) (r_location r),
       r_siteName := orElse (up_siteName b) (r_siteName r),
       scannedBy := orElse (up_scannedBy b) (scannedBy r),
       r_team := orElse (up_team b) (r_team r),
       masterDescription :=
         (case up_masterDescription b of None \<Rightarrow> masterDescription r | Some v \<Rightarrow> Some v),
       r_ndp := (case up_ndp b of None \<Rightarrow> r_ndp r | Some v \<Rightarrow> Some v)\<rparr>"

text \<open>\<open>runValidators\<close>: the schema's validators on the supplied fields (\<open>required\<close> refuses an
  empty string, \<open>enum\<close> a location outside the list).\<close>

definition validUpdate :: "rackUpdate \<Rightarrow> bool" where
  "validUpdate b =
     (up_rackNo b \<noteq> Some [] \<and> up_partNo b \<noteq> Some [] \<and> up_siteName b \<noteq> Some [] \<and>
      (case up_location b of None \<Rightarrow> True | Some l \<Rightarrow> l \<in> set locationEnum))"

definition updateRack ::
  "bool \<Rightarrow> db \<Rightarrow> user \<Rightarrow> idParam \<Rightarrow> rackUpdate \<Rightarrow> rack response \<times> db" where
  "updateRack writeOk st u rackIdP b =
     (case rackIdP of
        Missing \<Rightarrow> (Response 400 None, st)
      | Malformed \<Rightarrow> (Response 400 None, st)
      | Oid rackId \<Rightarrow>
          (case findRackById st rackId of
             None \<Rightarrow> (Response 404 None, st)
           | Some r \<Rightarrow>
               (let isAdmin = (role u = ''admin'');
                    isTeamLeader = isLeaderOfRackTeam st u r
                in if \<not> (isAdmin \<or> isTeamLeader) then (Response 403 None, st)
                   else if \<not> validUpdate b then (Response 500 None, st)
                   else if \<not> writeOk then (Response 500 None, st)
                   else
                     (let r' = applyUpdate b r
                      in (Response 200 (Some r'),
                          st\<lparr>racks := updateOne (\<lambda>x. r_id x = rackId) (\<lambda>x. r') (racks st)\<rparr>)))))"

definition deleteRack ::
  "bool \<Rightarrow> db \<Rightarrow> user \<Rightarrow> idParam \<Rightarrow> unit response \<times> db" where
  "deleteRack writeOk st u rackIdP =
     (case rackIdP of
        Missing \<Rightarrow> (Response 400 None, st)
      | Malformed \<Rightarrow> (Response 400 None, st)
      | Oid rackId \<Rightarrow>
          (case findRackById st rackId of
             None \<Rightarrow> (Response 404 None, st)
           | Some r \<Rightarrow>
               (let isAdmin = (role u = ''admin'');
                    isTeamLeader = isLeaderOfRackTeam st u r
                in if \<not> (isAdmin \<or> isTeamLeader) then (Response 403 None, st)
                   else if \<not> writeOk then (Response 500 None, st)
                   else (Response 200 (Some ()),
                         st\<lparr>racks := deleteOne (\<lambda>x. r_id x = r_id r) (racks st)\<rparr>))))"

text \<open>The rack router: every route runs \<open>protect\<close>, then \<open>authorize\<close> with the route's roles,
  then the handler.\<close>

definition rackRouter_post ::
  "bool \<Rightarrow> oid \<Rightarrow> nat \<Rightarrow> db \<Rightarrow> user option \<Rightarrow> createRackBody \<Rightarrow> rack response \<times> db" where
  "rackRouter_post insertOk newId now st reqUser b =
     authorize [''admin'', ''team_leader'', ''team_member''] reqUser
       (\<lambda>u. createRack insertOk newId now st u b) st"

definition rackRouter_put ::
  "bool \<Rightarrow> db \<Rightarrow> user option \<Rightarrow> idParam \<Rightarrow> rackUpdate \<Rightarrow> rack response \<times> db" where
  "rackRouter_put writeOk st reqUser rackIdP b =
     authorize [''admin'', ''team_leader''] reqUser (\<lambda>u. updateRack writeOk st u rackIdP b) st"

definition rackRouter_delete ::
  "bool \<Rightarrow> db \<Rightarrow> user option \<Rightarrow> idParam \<Rightarrow> unit response \<times> db" where
  "rackRouter_delete writeOk st reqUser rackIdP =
     authorize [''admin'', ''team_leader''] reqUser (\<lambda>u. deleteRack writeOk st u rackIdP) st"

section \<open>Master description upload and its ledger\<close>

text \<open>
  A session of the store. A transaction works on a copy of the store that only the
  session sees; committing makes the copy the store, aborting and ending the session drop
  it. \<open>ended\<close> records that \<open>endSession\<close> ran.
\<close>

record session =
  txn :: "db option"
  ended :: bool

definition startSession :: session where
  "startSession = \<lparr>txn = None, ended = False\<rparr>"

definition startTransaction :: "db \<Rightarrow> session \<Rightarrow> session" where
  "startTransaction st s = s\<lparr>txn := Some st\<rparr>"

definition inTxn :: "(db \<Rightarrow> db) \<Rightarrow> session \<Rightarrow> session" where
  "inTxn f s = s\<lparr>txn := map_option f (txn s)\<rparr>"

definition working :: "db \<Rightarrow> session \<Rightarrow> db" where
  "working st s = orElse (txn s) st"

definition commitTransaction :: "db \<Rightarrow> session \<Rightarrow> db \<times> session" where
  "commitTransaction st s = (working st s, s\<lparr>txn := None\<rparr>)"

definition abortTransaction :: "session \<Rightarrow> session" where
  "abortTransaction s = s\<lparr>txn := None\<rparr>"

definition endSession :: "session \<Rightarrow> session" where
  "endSession s = s\<lparr>txn := None, ended := True\<rparr>"

text \<open>The steps at which the store may refuse; a handler is given the set of steps that
  fail in this run.\<close>

datatype storeStep = CreateMeta | InsertRows | StampCount | DeleteRows | DeleteMeta | CommitTxn

text \<open>An entry of an upload. \<open>en_ndp\<close> and \<open>en_mrp\<close> are \<open>None\<close> when the field is missing or
  \<open>parseFloat\<close> makes nothing of it.\<close>

record entry =
  en_partNo :: string
  en_description :: string
  en_ndp :: "int option"
  en_mrp :: "int option"
  en_uploadBatch :: "string option"
  en_fileId :: "oid option"

record uploadBody =
  ub_entries :: "entry list option"
  ub_filename :: string

text \<open>\<open>parseFloat(x) || 0\<close>.\<close>

definition parseFloatOr0 :: "int option \<Rightarrow> int" where
  "parseFloatOr0 v = orElse v 0"

text \<open>
  The \<open>try\<close> block of \<open>uploadMasterDescriptions\<close> (controllers/master_controller.js). The
  result is \<open>None\<close> when a step threw, with the store and the session as they were then.
\<close>

definition uploadTry ::
  "(storeStep \<Rightarrow> bool) \<Rightarrow> oid \<Rightarrow> nat \<Rightarrow> db \<Rightarrow> session \<Rightarrow> user option \<Rightarrow> uploadBody \<Rightarrow>
     (oid \<times> nat) response option \<times> db \<times> session" where
  "uploadTry fails newId now st s reqUser b =
     (case ub_entries b of
        None \<Rightarrow> (Some (Response 400 None), st, s)
      | Some entries \<Rightarrow>
          if entries = [] then (Some (Response 400 None), st, s)
          else
            (let s1 = startTransaction st s
             in if fails CreateMeta then (None, st, s1)
                else
                  (let meta = \<lparr>um_id = newId, filename = ub_filename b,
                               totalReceived = Some (length entries), recordCount = None,
                               uploadedBy = map_option u_id reqUser,
                               uploadedByEmail = map_option email reqUser, uploadDate = now\<rparr>;
                       s2 = inTxn (\<lambda>w. w\<lparr>uploadMetadatas := uploadMetadatas w @ [meta]\<rparr>) s1;
                       fileId' = um_id meta;
                       docs = map (\<lambda>e. \<lparr>md_partNo = en_partNo e,
                                         md_description = en_description e,
                                         md_ndp = Some (parseFloatOr0 (en_ndp e)),
                                         md_mrp = Some (parseFloatOr0 (en_mrp e)),
                                         uploadBatch = Some (ub_filename b),
                                         fileId = Some fileId', uploadedFileId = None\<rparr>) entries
                   in if fails InsertRows then (None, st, s2)
                      else
                        (let s3 = inTxn (\<lambda>w. w\<lparr>masterDescriptions := masterDescriptions w @ docs\<rparr>) s2
                         in if fails StampCount then (None, st, s3)
                            else
                              (let s4 = inTxn (\<lambda>w. w\<lparr>uploadMetadatas :=
                                                       updateOne (\<lambda>m. um_id m = fileId')
                                                         (\<lambda>m. m\<lparr>recordCount := Some (length docs)\<rparr>)
                                                         (uploadMetadatas w)\<rparr>) s3
                               in if fails CommitTxn then (None, st, s4)
                                  else
                                    (case commitTransaction st s4 of
                                       (st', s5) \<Rightarrow>
                                         (Some (Response 201 (Some (fileId', length docs))),
                                          st', s5)))))))"

text \<open>The handler: the \<open>try\<close> block, the \<open>catch\<close> that aborts and answers 500, and the
  \<open>finally\<close> that ends the session.\<close>

definition uploadMasterDescriptions ::
  "(storeStep \<Rightarrow> bool) \<Rightarrow> oid \<Rightarrow> nat \<Rightarrow> db \<Rightarrow> user option \<Rightarrow> uploadBody \<Rightarrow>
     (oid \<times> nat) response \<times> db \<times> session" where
  "uploadMasterDescriptions fails newId now st reqUser b =
     (case uploadTry fails newId now st startSession reqUser b of
        (Some res, st', s') \<Rightarrow> (res, st', endSession s')
      | (None, st', s') \<Rightarrow> (Response 500 None, st', endSession (abortTransaction s')))"

text \<open>
  \<open>uploadMasterDescriptions\<close> of controllers/uploadcontroller.js: the entries are inserted
  as they come, then the ledger entry is created; there is no session.
\<close>

definition uploadcontroller_uploadMasterDescriptions ::
  "(storeStep \<Rightarrow> bool) \<Rightarrow> oid \<Rightarrow> nat \<Rightarrow> db \<Rightarrow> uploadBody \<Rightarrow> nat response \<times> db" where
  "uploadcontroller_uploadMasterDescriptions fails newId now st b =
     (case ub_entries b of
        None \<Rightarrow> (Response 400 None, st)
      | Some entries \<Rightarrow>
          if entries = [] then (Response 400 None, st)
          else if fails InsertRows then (Response 500 None, st)
          else
            (let insertedDocs = map (\<lambda>e. \<lparr>md_partNo = en_partNo e,
                                           md_description = en_description e,
                                           md_ndp = en_ndp e, md_mrp = en_mrp e,
                                           uploadBatch = en_uploadBatch e,
                                           fileId = en_fileId e, uploadedFileId = None\<rparr>) entries;
                 st1 = st\<lparr>masterDescriptions := masterDescriptions st @ insertedDocs\<rparr>
             in if fails CreateMeta then (Response 500 None, st1)
                else (Response 201 (Some (length insertedDocs)),
                      st1\<lparr>uploadMetadatas := uploadMetadatas st1 @
                            [\<lparr>um_id = newId, filename = ub_filename b, totalReceived = None,
                              recordCount = Some (length insertedDocs), uploadedBy = None,
                              uploadedByEmail = None, uploadDate = now\<rparr>]\<rparr>)))"

text \<open>The linkage query of \<open>deleteUploadedFile\<close>: \<open>fileId\<close>, \<open>uploadedFileId\<close> or the legacy
  \<open>uploadBatch\<close> file name.\<close>

definition linked :: "uploadMeta \<Rightarrow> masterDesc \<Rightarrow> bool" where
  "linked meta m =
     (fileId m = Some (um_id meta) \<or> uploadedFileId m = Some (um_id meta) \<or>
      uploadBatch m = Some (filename meta))"

definition countDocuments :: "(masterDesc \<Rightarrow> bool) \<Rightarrow> db \<Rightarrow> nat" where
  "countDocuments query st = length (filter query (masterDescriptions st))"

definition deleteTry ::
  "(storeStep \<Rightarrow> bool) \<Rightarrow> db \<Rightarrow> session \<Rightarrow> idParam \<Rightarrow> nat response option \<times> db \<times> session" where
  "deleteTry fails st s idP =
     (case idP of
        Missing \<Rightarrow> (Some (Response 400 None), st, s)
      | Malformed \<Rightarrow> (Some (Response 400 None), st, s)
      | Oid i \<Rightarrow>
          (let s1 = startTransaction st s
           in case find (\<lambda>m. um_id m = i) (uploadMetadatas (working st s1)) of
                None \<Rightarrow> (Some (Response 404 None), st, abortTransaction s1)
              | Some meta \<Rightarrow>
                  (let countBefore = countDocuments (linked meta) st
                   in if fails DeleteRows then (None, st, s1)
                      else
                        (let deletedCount = countDocuments (linked meta) (working st s1);
                             s2 = inTxn (\<lambda>w. w\<lparr>masterDescriptions :=
                                               filter (\<lambda>m. \<not> linked meta m) (masterDescriptions w)\<rparr>) s1
                         in if fails DeleteMeta then (None, st, s2)
                            else
                              (let s3 = inTxn (\<lambda>w. w\<lparr>uploadMetadatas :=
                                                 deleteOne (\<lambda>m. um_id m = i) (uploadMetadatas w)\<rparr>) s2
                               in if fails CommitTxn then (None, st, s3)
                                  else
                                    (case commitTransaction st s3 of
                                       (st', s4) \<Rightarrow>
                                         (Some (Response 200 (Some deletedCount)), st', s4)))))))"

text \<open>\<open>deleteUploadedFile\<close>; the answer's data is \<open>deletedRecordsCount\<close>.\<close>

definition deleteUploadedFile ::
  "(storeStep \<Rightarrow> bool) \<Rightarrow> db \<Rightarrow> idParam \<Rightarrow> nat response \<times> db \<times> session" where
  "deleteUploadedFile fails st idP =
     (case deleteTry fails st startSession idP of
        (Some res, st', s') \<Rightarrow> (res, st', endSession s')
      | (None, st', s') \<Rightarrow> (Response 500 None, st', endSession (abortTransaction s')))"

section \<open>Export snapshots\<close>

text \<open>\<open>trim\<close> of the schema's string fields; the white space is the ASCII part of what
  JavaScript trims.\<close>

definition isSpace :: "char \<Rightarrow> bool" where
  "isSpace c = (c \<in> set [CHR '' '', CHR 0x09, CHR 0x0A, CHR 0x0B, CHR 0x0C, CHR 0x0D])"

definition trim :: "string \<Rightarrow> string" where
  "trim s = rev (dropWhile isSpace (rev (dropWhile isSpace s)))"

text \<open>A line item of the request: whatever fields it carries, among them possibly its own
  \<open>team\<close>, \<open>siteName\<close> and \<open>exportedBy\<close>.\<close>

record snapshotItem =
  sn_sNo :: "int option"
  sn_location :: "string option"
  sn_rackNo :: "string option"
  sn_partNo :: "string option"
  sn_nextQty :: "int option"
  sn_mrp :: "int option"
  sn_ndp :: "int option"
  sn_materialDescription :: "string option"
  sn_team :: "oid option"
  sn_siteName :: "string option"
  sn_exportedBy :: "oid option"

text \<open>An element of \<open>snapshotsToSave\<close>.\<close>

record snapshotDoc =
  sd_sNo :: "int option"
  sd_location :: "string option"
  sd_rackNo :: "string option"
  sd_partNo :: "string option"
  sd_nextQty :: "int option"
  sd_mrp :: "int option"
  sd_ndp :: "int option"
  sd_materialDescription :: "string option"
  sd_team :: oid
  sd_siteName :: string
  sd_exportedBy :: oid

definition toSnapshotDoc :: "oid \<Rightarrow> string \<Rightarrow> oid \<Rightarrow> snapshotItem \<Rightarrow> snapshotDoc" where
  "toSnapshotDoc teamId siteName exportedBy' snapshot =
     \<lparr>sd_sNo = sn_sNo snapshot, sd_location = sn_location snapshot,
      sd_rackNo = sn_rackNo snapshot, sd_partNo = sn_partNo snapshot,
      sd_nextQty = sn_nextQty snapshot, sd_mrp = sn_mrp snapshot, sd_ndp = sn_ndp snapshot,
      sd_materialDescription = sn_materialDescription snapshot,
      sd_team = teamId, sd_siteName = siteName, sd_exportedBy = exportedBy'\<rparr>"

text \<open>The schema applied to a document: setters (\<open>trim\<close>) and defaults give the stored row,
  the validators (\<open>required\<close>, \<open>min\<close>) accept it or not.\<close>

definition requiredStr :: "string option \<Rightarrow> bool" where
  "requiredStr v = (case v of None \<Rightarrow> False | Some s \<Rightarrow> trim s \<noteq> [])"

definition minZero :: "int option \<Rightarrow> bool" where
  "minZero v = (case v of None \<Rightarrow> True | Some n \<Rightarrow> 0 \<le> n)"

definition validSnapshotDoc :: "snapshotDoc \<Rightarrow> bool" where
  "validSnapshotDoc d =
     (sd_sNo d \<noteq> None \<and> requiredStr (sd_location d) \<and> requiredStr (sd_rackNo d) \<and>
      requiredStr (sd_partNo d) \<and> sd_nextQty d \<noteq> None \<and> minZero (sd_nextQty d) \<and>
      minZero (sd_mrp d) \<and> minZero (sd_ndp d) \<and> trim (sd_siteName d) \<noteq> [])"

definition castSnapshotDoc :: "nat \<Rightarrow> snapshotDoc \<Rightarrow> exportedRack" where
  "castSnapshotDoc now d =
     \<lparr>sNo = the (sd_sNo d), e_location = trim (the (sd_location d)),
      e_rackNo = trim (the (sd_rackNo d)), e_partNo = trim (the (sd_partNo d)),
      e_nextQty = the (sd_nextQty d), e_mrp = sd_mrp d, e_ndp = sd_ndp d,
      materialDescription = trim (orElse (sd_materialDescription d) []),
      exportedAt = now, e_team = sd_team d, e_siteName = trim (sd_siteName d),
      exportedBy = sd_exportedBy d\<rparr>"

record snapshotsBody =
  sb_snapshots :: "snapshotItem list option"
  sb_teamId :: idParam
  sb_siteName :: "string option"

text \<open>
  \<open>createExportedSnapshots\<close>. \<open>insertMany\<close> validates every document before it writes any;
  \<open>insertFault = Some k\<close> is a store that fails after writing \<open>k\<close> documents, \<open>None\<close> one that
  writes them all. A rejection outside the \<open>try\<close> (the cast of a malformed \<open>teamId\<close>) goes
  to \<open>asyncHandler\<close> and is answered with 500.
\<close>

definition createExportedSnapshots ::
  "nat option \<Rightarrow> nat \<Rightarrow> db \<Rightarrow> user \<Rightarrow> snapshotsBody \<Rightarrow> nat response \<times> db" where
  "createExportedSnapshots insertFault now st u b =
     (case sb_snapshots b of
        None \<Rightarrow> (Response 400 None, st)
      | Some snapshots \<Rightarrow>
          if snapshots = [] then (Response 400 None, st)
          else if sb_teamId b = Missing then (Response 400 None, st)
          else if falsy (sb_siteName b) then (Response 400 None, st)
          else
            (case sb_teamId b of
               Missing \<Rightarrow> (Response 400 None, st)
             | Malformed \<Rightarrow> (Response 500 None, st)
             | Oid teamId \<Rightarrow>
                 (case findTeamById st teamId of
                    None \<Rightarrow> (Response 404 None, st)
                  | Some teamExists \<Rightarrow>
                      (let exportedBy' = u_id u;
                           isAuthorized =
                             (role u = ''admin'' \<or>
                              (role u = ''team_leader'' \<and>
                               teamLeader teamExists = Some exportedBy'))
                       in if \<not> isAuthorized then (Response 403 None, st)
                          else
                            (let snapshotsToSave =
                                   map (toSnapshotDoc teamId (the (sb_siteName b)) exportedBy')
                                     snapshots
                             in if \<not> list_all validSnapshotDoc snapshotsToSave
                                then (Response 500 None, st)
                                else
                                  (case insertFault of
                                     Some k \<Rightarrow>
                                       (Response 500 None,
                                        st\<lparr>exportedRacks := exportedRacks st @
                                              map (castSnapshotDoc now) (take k snapshotsToSave)\<rparr>)
                                   | None \<Rightarrow>
                                       (Response 201 (Some (length snapshotsToSave)),
                                        st\<lparr>exportedRacks := exportedRacks st @
                                              map (castSnapshotDoc now) snapshotsToSave\<rparr>)))))))"

section \<open>Notions used in the statements\<close>

text \<open>The relation \<open>getRackById\<close> requires between the principal and the rack's team, read
  off the stored team: \<open>isAdmin || isTeamLeader || isTeamMember\<close>.\<close>

definition related :: "db \<Rightarrow> user \<Rightarrow> rack \<Rightarrow> bool" where
  "related st u r =
     (role u = ''admin'' \<or>
      (case findTeamById st (r_team r) of
         None \<Rightarrow> False
       | Some t \<Rightarrow> teamLeader t = Some (u_id u) \<or> u_id u \<in> set (members t)))"

text \<open>The ids of the teams a user leads: the \<open>teamIds\<close> that \<open>getRacks\<close> computes for a team
  leader.\<close>

definition ledBy :: "db \<Rightarrow> user \<Rightarrow> oid list" where
  "ledBy st u = map t_id (filter (\<lambda>t. teamLeader t = Some (u_id u)) (teams st))"

text \<open>Runs of the store: one in which no step fails, and one in which exactly the given
  step fails.\<close>

definition noFault :: "storeStep \<Rightarrow> bool" where
  "noFault step = False"

definition faultAt :: "storeStep \<Rightarrow> storeStep \<Rightarrow> bool" where
  "faultAt x step = (step = x)"

text \<open>The ledger entry and the rows that a committed upload leaves in the store: the entry
  with its stamped \<open>recordCount\<close>, and one row per entry, tagged with the batch id and the
  file name.\<close>

definition uploadedMeta :: "oid \<Rightarrow> nat \<Rightarrow> user option \<Rightarrow> uploadBody \<Rightarrow> uploadMeta" where
  "uploadedMeta newId now reqUser b =
     \<lparr>um_id = newId, filename = ub_filename b,
      totalReceived = Some (length (orElse (ub_entries b) [])),
      recordCount = Some (length (orElse (ub_entries b) [])),
      uploadedBy = map_option u_id reqUser,
      uploadedByEmail = map_option email reqUser, uploadDate = now\<rparr>"

definition uploadedRows :: "oid \<Rightarrow> uploadBody \<Rightarrow> masterDesc list" where
  "uploadedRows newId b =
     map (\<lambda>e. \<lparr>md_partNo = en_partNo e, md_description = en_description e,
               md_ndp = Some (parseFloatOr0 (en_ndp e)), md_mrp = Some (parseFloatOr0 (en_mrp e)),
               uploadBatch = Some (ub_filename b), fileId = Some newId, uploadedFileId = None\<rparr>)
       (orElse (ub_entries b) [])"

section \<open>A sample store\<close>

text \<open>An admin, a team leader who leads two sites, a member of the first site and a team
  member of no team; one rack at each site.\<close>

definition exAdmin :: user where
  "exAdmin = \<lparr>u_id = 1, role = ''admin'', email = ''admin@pas''\<rparr>"

definition exLeader :: user where
  "exLeader = \<lparr>u_id = 2, role = ''team_leader'', email = ''leader@pas''\<rparr>"

definition exMember :: user where
  "exMember = \<lparr>u_id = 3, role = ''team_member'', email = ''member@pas''\<rparr>"

definition exOther :: user where
  "exOther = \<lparr>u_id = 4, role = ''team_member'', email = ''other@pas''\<rparr>"

definition exTeamDelhi :: team where
  "exTeamDelhi =
     \<lparr>t_id = 10, t_siteName = ''Delhi-1'', t_location = ''DL'', t_description = [],
      isNewSite = False, teamLeader = Some 2, members = [3], t_status = ''Active'',
      t_createdAt = 1\<rparr>"

definition exTeamMumbai :: team where
  "exTeamMumbai =
     \<lparr>t_id = 11, t_siteName = ''Mumbai-1'', t_location = ''MH'', t_description = [],
      isNewSite = False, teamLeader = Some 2, members = [], t_status = ''Active'',
      t_createdAt = 2\<rparr>"

definition exRackDelhi :: rack where
  "exRackDelhi =
     \<lparr>r_id = 20, rackNo = ''R1'', partNo = ''P1'', r_mrp = None, nextQty = 5,
      r_location = ''SPARES'', r_siteName = ''Delhi-1'', scannedBy = 3, r_team = 10,
      masterDescription = None, r_ndp = None, r_createdAt = 3\<rparr>"

definition exRackMumbai :: rack where
  "exRackMumbai =
     \<lparr>r_id = 21, rackNo = ''R7'', partNo = ''P2'', r_mrp = None, nextQty = 1,
      r_location = ''ACCESSORIES'', r_siteName = ''Mumbai-1'', scannedBy = 2, r_team = 11,
      masterDescription = None, r_ndp = None, r_createdAt = 4\<rparr>"

definition exDb :: db where
  "exDb =
     \<lparr>users = [exAdmin, exLeader, exMember, exOther],
      teams = [exTeamDelhi, exTeamMumbai],
      racks = [exRackDelhi, exRackMumbai],
      masterDescriptions = [], uploadMetadatas = [], exportedRacks = []\<rparr>"

text \<open>Sample requests.\<close>

definition exCreateBody :: createRackBody where
  "exCreateBody =
     \<lparr>b_rackNo = Some ''R2'', b_partNo = Some ''P9'', b_nextQty = Some 4,
      b_siteName = Some ''Delhi-1'', b_location = Some ''SPARES''\<rparr>"

definition exUpdateBody :: rackUpdate where
  "exUpdateBody =
     \<lparr>up_rackNo = None, up_partNo = None, up_mrp = None, up_nextQty = Some 9,
      up_location = None, up_siteName = None, up_scannedBy = Some 4, up_team = None,
      up_masterDescription = None, up_ndp = None\<rparr>"

definition exPlainUpdate :: rackUpdate where
  "exPlainUpdate =
     \<lparr>up_rackNo = None, up_partNo = None, up_mrp = None, up_nextQty = Some 9,
      up_location = None, up_siteName = None, up_scannedBy = None, up_team = None,
      up_masterDescription = None, up_ndp = None\<rparr>"

definition exDuplicateBody :: createRackBody where
  "exDuplicateBody =
     \<lparr>b_rackNo = Some ''R1'', b_partNo = Some ''P1'', b_nextQty = Some 2,
      b_siteName = Some ''Mumbai-1'', b_location = Some ''SPARES''\<rparr>"

definition exQueryAll :: racksQuery where
  "exQueryAll = \<lparr>q_siteName = None, q_teamId = Missing\<rparr>"

definition exQueryDelhi :: racksQuery where
  "exQueryDelhi = \<lparr>q_siteName = Some ''Delhi-1'', q_teamId = Missing\<rparr>"

definition exItem :: snapshotItem where
  "exItem =
     \<lparr>sn_sNo = Some 1, sn_location = Some ''SPARES'', sn_rackNo = Some ''R1'',
      sn_partNo = Some ''P1'', sn_nextQty = Some 5, sn_mrp = None, sn_ndp = None,
      sn_materialDescription = None, sn_team = Some 11, sn_siteName = Some ''Mumbai-1'',
      sn_exportedBy = Some 4\<rparr>"

definition exSnapshots :: snapshotsBody where
  "exSnapshots = \<lparr>sb_snapshots = Some [exItem], sb_teamId = Oid 10, sb_siteName = Some ''Delhi-1''\<rparr>"

definition exSnapshotsPadded :: snapshotsBody where
  "exSnapshotsPadded =
     \<lparr>sb_snapshots = Some [exItem], sb_teamId = Oid 10, sb_siteName = Some '' Delhi-1''\<rparr>"

definition exEntry :: entry where
  "exEntry =
     \<lparr>en_partNo = ''P1'', en_description = ''Bolt'', en_ndp = Some 10, en_mrp = None,
      en_uploadBatch = None, en_fileId = None\<rparr>"

definition exUpload :: uploadBody where
  "exUpload = \<lparr>ub_entries = Some [exEntry, exEntry, exEntry], ub_filename = ''batch1''\<rparr>"

lemmas ex_defs =
  exAdmin_def exLeader_def exMember_def exOther_def exTeamDelhi_def exTeamMumbai_def
  exRackDelhi_def exRackMumbai_def exDb_def

section \<open>Properties of the team registry\<close>

lemma find_updateOne:
  "find P xs = Some x \<Longrightarrow> P (f x) \<Longrightarrow> find P (updateOne P f xs) = Some (f x)"
  by (induction xs) (auto split: if_splits)

lemma findTeamById_id: "findTeamById st i = Some t \<Longrightarrow> t_id t = i"
  by (auto simp: findTeamById_def find_Some_iff)

lemma findTeamById_saveTeam:
  "findTeamById st i = Some t \<Longrightarrow> t_id t' = i \<Longrightarrow> findTeamById (saveTeam st t') i = Some t'"
  unfolding findTeamById_def saveTeam_def
  using find_updateOne [of "\<lambda>x. t_id x = i" "teams st" t "\<lambda>x. t'"] by simp

lemma findUserById_saveTeam: "findUserById (saveTeam st t') m = findUserById st m"
  by (simp add: findUserById_def saveTeam_def)

text \<open>
  C2. Whenever \<open>completeTeamWork\<close> answers 200, the request named an existing team, the
  principal is an admin or the team leader who leads that team, and the team as stored
  afterwards (and as answered) has no members, no leader and the status \<open>Completed\<close>,
  whatever it held before.
\<close>

theorem completeTeamWork_clears:
  assumes "completeTeamWork saveOk st u teamIdP = (res, st')" and "status res = 200"
  shows "\<exists>i t t'. teamIdP = Oid i \<and> findTeamById st i = Some t \<and>
           (role u = ''admin'' \<or> (role u = ''team_leader'' \<and> teamLeader t = Some (u_id u))) \<and>
           findTeamById st' i = Some t' \<and> payload res = Some t' \<and>
           members t' = [] \<and> teamLeader t' = None \<and> t_status t' = ''Completed''"
proof (cases teamIdP)
  case (Oid i)
  show ?thesis
  proof (cases "findTeamById st i")
    case None
    with assms Oid show ?thesis by (auto simp: completeTeamWork_def)
  next
    case (Some t)
    let ?t' = "t\<lparr>members := [], teamLeader := None, t_status := ''Completed''\<rparr>"
    from assms Oid Some
    have auth: "role u = ''admin'' \<or> (role u = ''team_leader'' \<and> teamLeader t = Some (u_id u))"
      and ok: saveOk
      by (auto simp: completeTeamWork_def Let_def split: if_splits)
    with assms Oid Some have res: "res = Response 200 (Some ?t')" and st': "st' = saveTeam st ?t'"
      by (auto simp: completeTeamWork_def Let_def split: if_splits)
    have "t_id ?t' = i" using findTeamById_id [OF Some] by simp
    then have "findTeamById st' i = Some ?t'"
      unfolding st' by (rule findTeamById_saveTeam [OF Some])
    with Oid Some auth res show ?thesis by simp
  qed
qed (use assms in \<open>auto simp: completeTeamWork_def\<close>)

theorem completeTeamWork_clears_witness:
  "status (fst (completeTeamWork True exDb exLeader (Oid 10))) = 200 \<and>
   (\<exists>t'. findTeamById (snd (completeTeamWork True exDb exLeader (Oid 10))) 10 = Some t' \<and>
      members t' = [] \<and> teamLeader t' = None \<and> t_status t' = ''Completed'')"
proof -
  have run: "status (fst (completeTeamWork True exDb exLeader (Oid 10))) = 200"
    by (simp add: completeTeamWork_def findTeamById_def Let_def ex_defs)
  from completeTeamWork_clears [OF prod.collapse [symmetric] run]
  show ?thesis using run by auto
qed

lemma filter_keeps_all: "\<forall>x\<in>set xs. P x \<Longrightarrow> filter P xs = xs"
  by (induction xs) auto

lemma includes_canonical:
  "list_ex (memberIdMatches (MemberId m CanonicalText)) ms \<longleftrightarrow> m \<in> set ms"
  by (auto simp: list_ex_iff memberIdMatches_def)

text \<open>
  C9, as the code has it. For a team that exists and a principal who is an admin or leads
  it: adding a member id, given as the canonical text of the id, that is already among the
  team's members fails and leaves the store as it was, with status 400 when the user
  record exists (404 when it does not); after an add-member call with such a text that
  answered 200, the same call again answers 400 and leaves the store as it was; removing
  a member id whose text is the text of none of the members fails with status 400 and
  leaves the store as it was.
\<close>

theorem member_ops_fail_unchanged:
  assumes team: "findTeamById st i = Some t" and auth: "isTeamLeaderOrAdmin u t"
  shows "(m \<in> set (members t) \<longrightarrow>
            addTeamMember saveOk st u (Oid i) (MemberId m CanonicalText) =
              (Response (case findUserById st m of None \<Rightarrow> 404 | Some mu \<Rightarrow> 400) None, st)) \<and>
         (\<forall>res st'. addTeamMember saveOk st u (Oid i) (MemberId m CanonicalText) = (res, st') \<and>
              status res = 200 \<longrightarrow>
            addTeamMember saveOk' st' u (Oid i) (MemberId m CanonicalText) =
              (Response 400 None, st')) \<and>
         (\<not> list_ex (memberIdMatches mP) (members t) \<longrightarrow>
            removeTeamMember saveOk st u (Oid i) mP = (Response 400 None, st))"
proof (intro conjI allI impI)
  assume "m \<in> set (members t)"
  with team auth
  show "addTeamMember saveOk st u (Oid i) (MemberId m CanonicalText) =
          (Response (case findUserById st m of None \<Rightarrow> 404 | Some mu \<Rightarrow> 400) None, st)"
    by (simp add: addTeamMember_def castMemberId_def includes_canonical split: option.splits)
next
  fix res st'
  assume run: "addTeamMember saveOk st u (Oid i) (MemberId m CanonicalText) = (res, st') \<and>
               status res = 200"
  let ?t' = "t\<lparr>members := members t @ [m]\<rparr>"
  from run team auth obtain mu where mu: "findUserById st m = Some mu" "role mu = ''team_member''"
    and st': "st' = saveTeam st ?t'"
    by (auto simp: addTeamMember_def castMemberId_def Let_def split: option.splits if_splits)
  have "t_id ?t' = i" using findTeamById_id [OF team] by simp
  then have team': "findTeamById st' i = Some ?t'"
    unfolding st' by (rule findTeamById_saveTeam [OF team])
  have auth': "isTeamLeaderOrAdmin u ?t'"
    using auth by (simp add: isTeamLeaderOrAdmin_def)
  have user': "findUserById st' m = Some mu"
    unfolding st' using mu by (simp add: findUserById_saveTeam)
  show "addTeamMember saveOk' st' u (Oid i) (MemberId m CanonicalText) = (Response 400 None, st')"
    using team' auth' user' mu
    by (simp add: addTeamMember_def castMemberId_def includes_canonical memberIdMatches_def)
next
  assume "\<not> list_ex (memberIdMatches mP) (members t)"
  then have "\<forall>x\<in>set (members t). \<not> memberIdMatches mP x"
    by (simp add: list_ex_iff)
  then have "filter (\<lambda>x. \<not> memberIdMatches mP x) (members t) = members t"
    by (rule filter_keeps_all)
  with team auth show "removeTeamMember saveOk st u (Oid i) mP = (Response 400 None, st)"
    by (simp add: removeTeamMember_def Let_def)
qed

theorem member_ops_fail_unchanged_witness:
  "findTeamById exDb 10 = Some exTeamDelhi \<and> isTeamLeaderOrAdmin exLeader exTeamDelhi \<and>
   3 \<in> set (members exTeamDelhi) \<and>
   addTeamMember True exDb exLeader (Oid 10) (MemberId 3 CanonicalText) =
     (Response 400 None, exDb) \<and>
   status (fst (addTeamMember True exDb exLeader (Oid 10) (MemberId 4 CanonicalText))) = 200 \<and>
   addTeamMember True
       (snd (addTeamMember True exDb exLeader (Oid 10) (MemberId 4 CanonicalText))) exLeader
       (Oid 10) (MemberId 4 CanonicalText) =
     (Response 400 None,
      snd (addTeamMember True exDb exLeader (Oid 10) (MemberId 4 CanonicalText))) \<and>
   \<not> list_ex (memberIdMatches (MemberId 3 OtherText)) (members exTeamDelhi) \<and>
   removeTeamMember True exDb exLeader (Oid 10) (MemberId 3 OtherText) =
     (Response 400 None, exDb)"
proof -
  let ?add4 = "addTeamMember True exDb exLeader (Oid 10) (MemberId 4 CanonicalText)"
  have team: "findTeamById exDb 10 = Some exTeamDelhi"
    by (simp add: findTeamById_def ex_defs)
  have auth: "isTeamLeaderOrAdmin exLeader exTeamDelhi"
    by (simp add: isTeamLeaderOrAdmin_def ex_defs)
  have mem: "3 \<in> set (members exTeamDelhi)"
    and non: "\<not> list_ex (memberIdMatches (MemberId 3 OtherText)) (members exTeamDelhi)"
    by (simp_all add: memberIdMatches_def ex_defs)
  have usr: "findUserById exDb 3 = Some exMember"
    by (simp add: findUserById_def ex_defs)
  have first: "status (fst ?add4) = 200"
    by (simp add: addTeamMember_def castMemberId_def memberIdMatches_def findTeamById_def
        findUserById_def isTeamLeaderOrAdmin_def Let_def ex_defs)
  note at3 = member_ops_fail_unchanged [OF team auth, of 3 True True "MemberId 3 OtherText"]
  note at4 = member_ops_fail_unchanged [OF team auth, of 4 True True "MemberId 3 OtherText"]
  from at3 mem usr
  have a: "addTeamMember True exDb exLeader (Oid 10) (MemberId 3 CanonicalText) =
             (Response 400 None, exDb)"
    by simp
  from at4 first
  have b: "addTeamMember True (snd ?add4) exLeader (Oid 10) (MemberId 4 CanonicalText) =
             (Response 400 None, snd ?add4)"
    by (metis prod.collapse)
  from at3 non
  have c: "removeTeamMember True exDb exLeader (Oid 10) (MemberId 3 OtherText) =
             (Response 400 None, exDb)"
    by blast
  from team auth mem a first b non c show ?thesis by blast
qed

text \<open>User 4 is not a member of the Delhi team; an admin's request to remove that user is
  answered with status 400, not with 404.\<close>

theorem remove_non_member_counterexample:
  "4 \<notin> set (members exTeamDelhi) \<and>
   findTeamById exDb 10 = Some exTeamDelhi \<and>
   status (fst (removeTeamMember True exDb exAdmin (Oid 10) (MemberId 4 CanonicalText))) = 400 \<and>
   status (fst (removeTeamMember True exDb exAdmin (Oid 10) (MemberId 4 CanonicalText))) \<noteq> 404"
  by (simp add: removeTeamMember_def findTeamById_def isTeamLeaderOrAdmin_def
      memberIdMatches_def Let_def ex_defs)

text \<open>
  What the text comparison lets through. User 3 is a member of the Delhi team; an
  add-member request that names user 3 by another text of the same id (upper-case hex
  digits) passes the duplicate test, is answered 200 and stores the id a second time, and
  the same request again is answered 200 again.
\<close>

lemma addTeamMember_other_text_duplicates:
  "members exTeamDelhi = [3] \<and>
   status (fst (addTeamMember True exDb exLeader (Oid 10) (MemberId 3 OtherText))) = 200 \<and>
   map_option members
     (findTeamById (snd (addTeamMember True exDb exLeader (Oid 10) (MemberId 3 OtherText))) 10)
     = Some [3, 3] \<and>
   status (fst (addTeamMember True
                 (snd (addTeamMember True exDb exLeader (Oid 10) (MemberId 3 OtherText)))
                 exLeader (Oid 10) (MemberId 3 OtherText))) = 200"
  by (simp add: addTeamMember_def castMemberId_def memberIdMatches_def findTeamById_def
      findUserById_def isTeamLeaderOrAdmin_def saveTeam_def Let_def ex_defs)

section \<open>Properties of the rack inventory\<close>

lemma authorize_denied:
  "role u \<notin> set roles \<Longrightarrow> authorize roles (Some u) next st = (Response 403 None, st)"
  by (simp add: authorize_def)

lemma authorize_passed:
  "role u \<in> set roles \<Longrightarrow> authorize roles (Some u) next st = next u"
  by (simp add: authorize_def)

lemma createRack_not_denied:
  assumes "find (\<lambda>t. Some (t_siteName t) = b_siteName cb) (teams st) = Some t"
    and "role u = ''team_member''" and "u_id u \<in> set (members t)"
  shows "status (fst (createRack insertOk newId now st u cb)) \<in> {201, 400, 500}"
  using assms by (simp add: createRack_def Let_def split: option.splits)

lemma createRack_created:
  assumes "find (\<lambda>t. Some (t_siteName t) = b_siteName cb) (teams st) = Some t"
    and "role u = ''team_member''" and "u_id u \<in> set (members t)"
    and "\<not> falsy (b_rackNo cb)" "\<not> falsy (b_partNo cb)" "b_nextQty cb \<noteq> None"
    and "\<not> falsy (b_siteName cb)" "b_location cb \<in> Some ` set locationEnum"
    and "find (\<lambda>r. Some (partNo r) = b_partNo cb \<and> Some (rackNo r) = b_rackNo cb) (racks st) = None"
    and insertOk
  shows "\<exists>newRack. createRack insertOk newId now st u cb =
             (Response 201 (Some newRack), st\<lparr>racks := racks st @ [newRack]\<rparr>) \<and>
           r_team newRack = t_id t \<and> scannedBy newRack = u_id u \<and> r_id newRack = newId"
proof -
  from assms(8) have loc: "\<not> falsy (b_location cb)" "the (b_location cb) \<in> set locationEnum"
    by (auto simp: falsy_def locationEnum_def)
  with assms show ?thesis
    by (simp add: createRack_def Let_def)
qed

text \<open>
  C1. A principal whose role is \<open>team_member\<close> is refused by the rack router on every
  update and every delete request, whatever the rack id (so also for a rack of a team the
  principal is a member of): the answer is 403 and the store is as it was. A create
  request by the same principal for a site whose team lists the principal as a member
  passes the authorisation (the answer is 201, 400 or 500, never 401 or 403), and with a
  complete body, a location of the schema, no rack with the same part and rack number and
  a store that accepts the insert it is answered 201, the new rack carrying the team's id
  and the principal as \<open>scannedBy\<close>.
\<close>

theorem team_member_rack_matrix:
  assumes member: "role u = ''team_member''"
  shows "rackRouter_put writeOk st (Some u) rackIdP ub = (Response 403 None, st) \<and>
         rackRouter_delete writeOk st (Some u) rackIdP = (Response 403 None, st) \<and>
         (\<forall>t. find (\<lambda>t. Some (t_siteName t) = b_siteName cb) (teams st) = Some t \<and>
               u_id u \<in> set (members t) \<longrightarrow>
            status (fst (rackRouter_post insertOk newId now st (Some u) cb)) \<in> {201, 400, 500} \<and>
            (\<not> falsy (b_rackNo cb) \<and> \<not> falsy (b_partNo cb) \<and> b_nextQty cb \<noteq> None \<and>
             \<not> falsy (b_siteName cb) \<and> b_location cb \<in> Some ` set locationEnum \<and>
             find (\<lambda>r. Some (partNo r) = b_partNo cb \<and> Some (rackNo r) = b_rackNo cb) (racks st) = None \<and>
             insertOk \<longrightarrow>
               (\<exists>newRack. rackRouter_post insertOk newId now st (Some u) cb =
                   (Response 201 (Some newRack), st\<lparr>racks := racks st @ [newRack]\<rparr>) \<and>
                 r_team newRack = t_id t \<and> scannedBy newRack = u_id u)))"
proof (intro conjI allI impI)
  show "rackRouter_put writeOk st (Some u) rackIdP ub = (Response 403 None, st)"
    unfolding rackRouter_put_def using member by (intro authorize_denied) simp
  show "rackRouter_delete writeOk st (Some u) rackIdP = (Response 403 None, st)"
    unfolding rackRouter_delete_def using member by (intro authorize_denied) simp
next
  fix t
  assume t: "find (\<lambda>t. Some (t_siteName t) = b_siteName cb) (teams st) = Some t \<and>
             u_id u \<in> set (members t)"
  have post: "rackRouter_post insertOk newId now st (Some u) cb = createRack insertOk newId now st u cb"
    unfolding rackRouter_post_def using member by (intro authorize_passed) simp
  show "status (fst (rackRouter_post insertOk newId now st (Some u) cb)) \<in> {201, 400, 500}"
    unfolding post using t member by (intro createRack_not_denied [of cb st t]) simp_all
  assume ok: "\<not> falsy (b_rackNo cb) \<and> \<not> falsy (b_partNo cb) \<and> b_nextQty cb \<noteq> None \<and>
             \<not> falsy (b_siteName cb) \<and> b_location cb \<in> Some ` set locationEnum \<and>
             find (\<lambda>r. Some (partNo r) = b_partNo cb \<and> Some (rackNo r) = b_rackNo cb) (racks st) = None \<and>
             insertOk"
  from t member ok
  have "\<exists>newRack. createRack insertOk newId now st u cb =
             (Response 201 (Some newRack), st\<lparr>racks := racks st @ [newRack]\<rparr>) \<and>
           r_team newRack = t_id t \<and> scannedBy newRack = u_id u \<and> r_id newRack = newId"
    by (intro createRack_created) simp_all
  then show "\<exists>newRack. rackRouter_post insertOk newId now st (Some u) cb =
                   (Response 201 (Some newRack), st\<lparr>racks := racks st @ [newRack]\<rparr>) \<and>
                 r_team newRack = t_id t \<and> scannedBy newRack = u_id u"
    unfolding post by auto
qed

theorem team_member_rack_matrix_witness:
  "role exMember = ''team_member'' \<and>
   rackRouter_put True exDb (Some exMember) (Oid 20) exUpdateBody = (Response 403 None, exDb) \<and>
   rackRouter_delete True exDb (Some exMember) (Oid 20) = (Response 403 None, exDb) \<and>
   r_team exRackDelhi = t_id exTeamDelhi \<and> u_id exMember \<in> set (members exTeamDelhi) \<and>
   status (fst (rackRouter_post True 22 5 exDb (Some exMember) exCreateBody)) = 201 \<and>
   length (racks (snd (rackRouter_post True 22 5 exDb (Some exMember) exCreateBody))) = 3"
proof -
  have member: "role exMember = ''team_member''" by (simp add: ex_defs)
  note m = team_member_rack_matrix [OF member, of True exDb "Oid 20" exUpdateBody exCreateBody True 22 5]
  have t: "find (\<lambda>t. Some (t_siteName t) = b_siteName exCreateBody) (teams exDb) = Some exTeamDelhi"
    by (simp add: exCreateBody_def ex_defs)
  have mem: "u_id exMember \<in> set (members exTeamDelhi)" "r_team exRackDelhi = t_id exTeamDelhi"
    by (simp_all add: ex_defs)
  have ok: "\<not> falsy (b_rackNo exCreateBody) \<and> \<not> falsy (b_partNo exCreateBody) \<and>
      b_nextQty exCreateBody \<noteq> None \<and> \<not> falsy (b_siteName exCreateBody) \<and>
      b_location exCreateBody \<in> Some ` set locationEnum \<and>
      find (\<lambda>r. Some (partNo r) = b_partNo exCreateBody \<and> Some (rackNo r) = b_rackNo exCreateBody)
        (racks exDb) = None"
    by (simp add: exCreateBody_def falsy_def locationEnum_def ex_defs)
  from m t mem ok
  obtain newRack where "rackRouter_post True 22 5 exDb (Some exMember) exCreateBody =
      (Response 201 (Some newRack), exDb\<lparr>racks := racks exDb @ [newRack]\<rparr>)"
    by blast
  then have "status (fst (rackRouter_post True 22 5 exDb (Some exMember) exCreateBody)) = 201"
    and "length (racks (snd (rackRouter_post True 22 5 exDb (Some exMember) exCreateBody))) = 3"
    by (simp_all add: exDb_def)
  with m member mem show ?thesis by blast
qed

lemma findRackById_id: "findRackById st i = Some r \<Longrightarrow> r_id r = i"
  by (auto simp: findRackById_def find_Some_iff)

text \<open>
  C6, as the code has it. After an update answered with 200 the stored rack's \<open>scannedBy\<close>
  is the value the request body supplies when it supplies one, and the rack's previous
  value otherwise: \<open>updateRack\<close> hands the whole body to \<open>findByIdAndUpdate\<close>.
\<close>

theorem updateRack_scannedBy:
  assumes run: "updateRack writeOk st u (Oid i) b = (res, st')" and ok: "status res = 200"
    and rack: "findRackById st i = Some r"
  shows "\<exists>r'. findRackById st' i = Some r' \<and> payload res = Some r' \<and>
           scannedBy r' = (case up_scannedBy b of None \<Rightarrow> scannedBy r | Some v \<Rightarrow> v)"
proof -
  let ?r' = "applyUpdate b r"
  from run ok rack have res: "res = Response 200 (Some ?r')"
    and st': "st' = st\<lparr>racks := updateOne (\<lambda>x. r_id x = i) (\<lambda>x. ?r') (racks st)\<rparr>"
    by (auto simp: updateRack_def Let_def split: if_splits)
  have "r_id ?r' = i" using findRackById_id [OF rack] by (simp add: applyUpdate_def)
  with rack have "findRackById st' i = Some ?r'"
    unfolding st' findRackById_def
    using find_updateOne [of "\<lambda>x. r_id x = i" "racks st" r "\<lambda>x. ?r'"] by simp
  moreover have "scannedBy ?r' = (case up_scannedBy b of None \<Rightarrow> scannedBy r | Some v \<Rightarrow> v)"
    by (simp add: applyUpdate_def orElse_def)
  ultimately show ?thesis using res by simp
qed

theorem updateRack_scannedBy_witness:
  "status (fst (updateRack True exDb exLeader (Oid 20) exPlainUpdate)) = 200 \<and>
   findRackById exDb 20 = Some exRackDelhi \<and>
   (\<exists>r'. findRackById (snd (updateRack True exDb exLeader (Oid 20) exPlainUpdate)) 20 = Some r' \<and>
      scannedBy r' = scannedBy exRackDelhi \<and> nextQty r' = 9)"
proof -
  have run: "status (fst (updateRack True exDb exLeader (Oid 20) exPlainUpdate)) = 200"
    by (simp add: updateRack_def findRackById_def isLeaderOfRackTeam_def findTeamById_def
        validUpdate_def exPlainUpdate_def Let_def ex_defs)
  have rack: "findRackById exDb 20 = Some exRackDelhi"
    by (simp add: findRackById_def ex_defs)
  have pay: "payload (fst (updateRack True exDb exLeader (Oid 20) exPlainUpdate)) =
      Some (applyUpdate exPlainUpdate exRackDelhi)"
    by (simp add: updateRack_def findRackById_def isLeaderOfRackTeam_def findTeamById_def
        validUpdate_def exPlainUpdate_def Let_def ex_defs)
  have nq: "nextQty (applyUpdate exPlainUpdate exRackDelhi) = 9"
    by (simp add: applyUpdate_def orElse_def exPlainUpdate_def)
  from updateRack_scannedBy [OF prod.collapse [symmetric] run rack]
  obtain r' where "findRackById (snd (updateRack True exDb exLeader (Oid 20) exPlainUpdate)) 20 = Some r'"
    and "payload (fst (updateRack True exDb exLeader (Oid 20) exPlainUpdate)) = Some r'"
    and "scannedBy r' = (case up_scannedBy exPlainUpdate of None \<Rightarrow> scannedBy exRackDelhi | Some v \<Rightarrow> v)"
    by blast
  with pay nq have "findRackById (snd (updateRack True exDb exLeader (Oid 20) exPlainUpdate)) 20 = Some r' \<and>
      scannedBy r' = scannedBy exRackDelhi \<and> nextQty r' = 9"
    by (simp add: exPlainUpdate_def)
  with run rack show ?thesis by blast
qed

text \<open>The Delhi rack was scanned by user 3; an admin's update whose body carries
  \<open>scannedBy = 4\<close> is answered 200 and the stored rack is then scanned by user 4.\<close>

theorem updateRack_scannedBy_counterexample:
  "scannedBy exRackDelhi = 3 \<and>
   findRackById exDb 20 = Some exRackDelhi \<and>
   status (fst (updateRack True exDb exAdmin (Oid 20) exUpdateBody)) = 200 \<and>
   map_option scannedBy
     (findRackById (snd (updateRack True exDb exAdmin (Oid 20) exUpdateBody)) 20) = Some 4"
  by (simp add: updateRack_def findRackById_def isLeaderOfRackTeam_def findTeamById_def
      validUpdate_def applyUpdate_def orElse_def exUpdateBody_def Let_def ex_defs)

text \<open>
  C7 at a concrete request. The pair (P1, R1) exists only at Delhi-1; no rack of Mumbai-1
  has it. An admin's create request for Mumbai-1 with that pair is answered 400 and
  nothing is stored: the pre-insert query \<open>Rack.findOne({ partNo, rackNo })\<close> does not
  mention the site.
\<close>

theorem createRack_blocked_by_other_site:
  "filter (\<lambda>r. r_siteName r = ''Mumbai-1'' \<and> partNo r = ''P1'' \<and> rackNo r = ''R1'') (racks exDb) = [] \<and>
   createRack True 22 5 exDb exAdmin exDuplicateBody = (Response 400 None, exDb)"
  by (simp add: createRack_def falsy_def exDuplicateBody_def Let_def ex_defs)

lemma find_filter: "find P xs = (case filter P xs of [] \<Rightarrow> None | x # ys \<Rightarrow> Some x)"
  by (induction xs) auto

lemma lookupUnwind_Nil: "lookupUnwind f [] = []"
  by (simp add: lookupUnwind_def)

lemma lookupUnwind_Cons:
  "\<exists>tl. lookupUnwind f (x # xs) = (x, case f x of [] \<Rightarrow> None | y # ys \<Rightarrow> Some y) # tl"
  by (cases "f x") (simp_all add: lookupUnwind_def)

lemma joinRacks_Nil: "joinRacks st [] = []"
  by (simp add: joinRacks_def lookupUnwind_Nil)

lemma joinRacks_Cons:
  "\<exists>row tl. joinRacks st (r # rs) = row # tl \<and> row_rack row = r \<and>
     row_team row = findTeamById st (r_team r)"
proof -
  let ?f1 = "\<lambda>r. filter (\<lambda>m. md_partNo m = partNo r) (masterDescriptions st)"
  let ?f2 = "\<lambda>(r, md). filter (\<lambda>t. t_id t = r_team r) (teams st)"
  let ?f3 = "\<lambda>((r, md), t). filter (\<lambda>u. u_id u = scannedBy r) (users st)"
  obtain md tl1 where 1: "lookupUnwind ?f1 (r # rs) = (r, md) # tl1"
    using lookupUnwind_Cons [of ?f1 r rs] by blast
  obtain tl2 where 2: "lookupUnwind ?f2 ((r, md) # tl1) =
      ((r, md), case ?f2 (r, md) of [] \<Rightarrow> None | y # ys \<Rightarrow> Some y) # tl2"
    using lookupUnwind_Cons [of ?f2 "(r, md)" tl1] by blast
  have t: "(case ?f2 (r, md) of [] \<Rightarrow> None | y # ys \<Rightarrow> Some y) = findTeamById st (r_team r)"
    by (simp add: findTeamById_def find_filter [of "\<lambda>t. t_id t = r_team r"])
  obtain us tl3 where 3: "lookupUnwind ?f3 (((r, md), findTeamById st (r_team r)) # tl2) =
      (((r, md), findTeamById st (r_team r)), us) # tl3"
    using lookupUnwind_Cons [of ?f3 "((r, md), findTeamById st (r_team r))" tl2] by blast
  show ?thesis
    unfolding joinRacks_def 1 2 t 3 by simp
qed

lemma getRackById_absent:
  "findRackById st i = None \<Longrightarrow> getRackById st u (Oid i) = Response 404 None"
proof -
  assume "findRackById st i = None"
  then have "filter (\<lambda>r. r_id r = i) (racks st) = []"
    by (simp add: findRackById_def find_filter [of "\<lambda>r. r_id r = i"] split: list.splits)
  then show ?thesis by (simp add: getRackById_def joinRacks_Nil)
qed

lemma getRackById_present:
  assumes "findRackById st i = Some r"
  shows "\<exists>row. row_rack row = r \<and>
           getRackById st u (Oid i) = (if related st u r then Response 200 (Some row) else Response 403 None)"
proof -
  from assms obtain rs where "filter (\<lambda>r. r_id r = i) (racks st) = r # rs"
    by (auto simp: findRackById_def find_filter [of "\<lambda>r. r_id r = i"] split: list.splits)
  moreover obtain row tl where "joinRacks st (r # rs) = row # tl" "row_rack row = r"
    "row_team row = findTeamById st (r_team r)"
    using joinRacks_Cons by blast
  ultimately show ?thesis
    by (auto simp: getRackById_def related_def Let_def split: option.splits)
qed

text \<open>
  C8, as the code has it. \<open>getRackById\<close> answers 400 when the id is not a well-formed object
  id, 404 when no rack has the id (whoever asks), 403 when the rack exists and the
  principal is neither an admin nor, by id, the leader or a member of the rack's team, and
  200 with the rack otherwise; 403 is only ever answered for a rack that exists.
\<close>

theorem getRackById_outcomes:
  "(rackIdP \<in> {Missing, Malformed} \<longrightarrow> getRackById st u rackIdP = Response 400 None) \<and>
   (findRackById st i = None \<longrightarrow> getRackById st u (Oid i) = Response 404 None) \<and>
   (\<forall>r. findRackById st i = Some r \<and> \<not> related st u r \<longrightarrow>
        getRackById st u (Oid i) = Response 403 None) \<and>
   (\<forall>r. findRackById st i = Some r \<and> related st u r \<longrightarrow>
        (\<exists>row. getRackById st u (Oid i) = Response 200 (Some row) \<and> row_rack row = r)) \<and>
   (status (getRackById st u rackIdP) = 403 \<longrightarrow>
        (\<exists>j r. rackIdP = Oid j \<and> findRackById st j = Some r))"
proof (intro conjI allI impI)
  assume "rackIdP \<in> {Missing, Malformed}"
  then show "getRackById st u rackIdP = Response 400 None"
    by (auto simp: getRackById_def)
next
  assume "findRackById st i = None"
  then show "getRackById st u (Oid i) = Response 404 None" by (rule getRackById_absent)
next
  fix r assume "findRackById st i = Some r \<and> \<not> related st u r"
  then show "getRackById st u (Oid i) = Response 403 None"
    using getRackById_present [of st i r u] by auto
next
  fix r assume "findRackById st i = Some r \<and> related st u r"
  then show "\<exists>row. getRackById st u (Oid i) = Response 200 (Some row) \<and> row_rack row = r"
    using getRackById_present [of st i r u] by auto
next
  assume 403: "status (getRackById st u rackIdP) = 403"
  show "\<exists>j r. rackIdP = Oid j \<and> findRackById st j = Some r"
  proof (cases rackIdP)
    case (Oid j)
    with 403 getRackById_absent [of st j u] show ?thesis
      by (cases "findRackById st j") auto
  qed (use 403 in \<open>auto simp: getRackById_def\<close>)
qed

theorem getRackById_outcomes_witness:
  "getRackById exDb exOther Malformed = Response 400 None \<and>
   findRackById exDb 99 = None \<and> getRackById exDb exOther (Oid 99) = Response 404 None \<and>
   findRackById exDb 20 = Some exRackDelhi \<and> \<not> related exDb exOther exRackDelhi \<and>
   getRackById exDb exOther (Oid 20) = Response 403 None \<and>
   related exDb exMember exRackDelhi \<and>
   status (getRackById exDb exMember (Oid 20)) = 200"
proof -
  have a: "findRackById exDb 99 = None" "findRackById exDb 20 = Some exRackDelhi"
    by (simp_all add: findRackById_def ex_defs)
  have b: "\<not> related exDb exOther exRackDelhi" "related exDb exMember exRackDelhi"
    by (simp_all add: related_def findTeamById_def ex_defs)
  note o = getRackById_outcomes [of Malformed exDb exOther 99]
  note p = getRackById_outcomes [of Malformed exDb exOther 20]
  note q = getRackById_outcomes [of Malformed exDb exMember 20]
  from o have 1: "getRackById exDb exOther Malformed = Response 400 None" by blast
  from o a have 2: "getRackById exDb exOther (Oid 99) = Response 404 None" by blast
  from p a b have 3: "getRackById exDb exOther (Oid 20) = Response 403 None" by blast
  from q a b have 4: "status (getRackById exDb exMember (Oid 20)) = 200" by fastforce
  from 1 2 3 4 a b show ?thesis by blast
qed

text \<open>A malformed id is answered with 400, not with 404.\<close>

theorem getRackById_invalid_id_counterexample:
  "getRackById exDb exAdmin Malformed = Response 400 None \<and>
   status (getRackById exDb exAdmin Malformed) \<noteq> 404"
  by (simp add: getRackById_def)

lemma set_lookupUnwind: "fst ` set (lookupUnwind f xs) = set xs"
proof -
  have "fst ` set (case f x of [] \<Rightarrow> [(x, None)] | y # ys \<Rightarrow> map (\<lambda>z. (x, Some z)) (y # ys)) = {x}" for x
    by (cases "f x") (auto simp: image_iff)
  then show ?thesis
    unfolding lookupUnwind_def by (induction xs) (simp_all add: image_Un)
qed

lemma set_joinRacks: "row_rack ` set (joinRacks st rs) = set rs"
proof -
  let ?f1 = "\<lambda>r. filter (\<lambda>m. md_partNo m = partNo r) (masterDescriptions st)"
  let ?f2 = "\<lambda>(r, md). filter (\<lambda>t. t_id t = r_team r) (teams st)"
  let ?f3 = "\<lambda>((r, md), t). filter (\<lambda>u. u_id u = scannedBy r) (users st)"
  let ?l3 = "lookupUnwind ?f3 (lookupUnwind ?f2 (lookupUnwind ?f1 rs))"
  have "row_rack ` set (joinRacks st rs) = (\<lambda>x. fst (fst (fst x))) ` set ?l3"
    unfolding joinRacks_def by (auto simp: image_iff split: prod.splits) force+
  also have "\<dots> = fst ` fst ` fst ` set ?l3"
    by (simp add: image_image)
  also have "\<dots> = set rs"
    by (simp add: set_lookupUnwind)
  finally show ?thesis .
qed

lemma set_aggregateRacks:
  "row_rack ` set (aggregateRacks st mf) = {r \<in> set (racks st). matches mf r}"
  by (simp add: aggregateRacks_def set_joinRacks)

text \<open>
  C5, as the code has it. For a \<open>team_leader\<close> principal \<open>getRacks\<close> answers 200, and the
  racks in the result are exactly the racks of the teams the principal leads, narrowed to
  the racks of the requested site when the query names one; no rack of another team is in
  the result, and a principal who leads no team gets the empty result. (A rack appears
  once per master description of its part number.)
\<close>

theorem getRacks_team_leader:
  assumes "role u = ''team_leader''"
  shows "\<exists>rows. getRacks st (Some u) q = Response 200 (Some rows) \<and>
           row_rack ` set rows =
             {r \<in> set (racks st). r_team r \<in> set (ledBy st u) \<and>
                 (falsy (q_siteName q) \<or> Some (r_siteName r) = q_siteName q)} \<and>
           (\<forall>row \<in> set rows. r_team (row_rack row) \<in> set (ledBy st u)) \<and>
           (ledBy st u = [] \<longrightarrow> rows = [])"
proof (cases "ledBy st u = []")
  case True
  with assms show ?thesis
    by (simp add: getRacks_def ledBy_def Let_def)
next
  case False
  let ?mf = "\<lparr>mf_team = Some (TeamIn (ledBy st u)),
              mf_siteName = (if falsy (q_siteName q) then None else q_siteName q)\<rparr>"
  from False assms have run: "getRacks st (Some u) q = Response 200 (Some (aggregateRacks st ?mf))"
    by (simp add: getRacks_def ledBy_def Let_def)
  have m: "matches ?mf r \<longleftrightarrow> r_team r \<in> set (ledBy st u) \<and>
      (falsy (q_siteName q) \<or> Some (r_siteName r) = q_siteName q)" for r
    by (auto simp: matches_def falsy_def)
  have s: "row_rack ` set (aggregateRacks st ?mf) =
      {r \<in> set (racks st). r_team r \<in> set (ledBy st u) \<and>
                 (falsy (q_siteName q) \<or> Some (r_siteName r) = q_siteName q)}"
    unfolding set_aggregateRacks using m by blast
  then have "\<forall>row \<in> set (aggregateRacks st ?mf). r_team (row_rack row) \<in> set (ledBy st u)"
    by blast
  with run s False show ?thesis by simp
qed

theorem getRacks_team_leader_witness:
  "role exLeader = ''team_leader'' \<and>
   (\<exists>rows. getRacks exDb (Some exLeader) exQueryAll = Response 200 (Some rows) \<and>
      row_rack ` set rows = {exRackDelhi, exRackMumbai}) \<and>
   ledBy exDb exMember = [] \<and>
   role (exMember\<lparr>role := ''team_leader''\<rparr>) = ''team_leader'' \<and>
   getRacks exDb (Some (exMember\<lparr>role := ''team_leader''\<rparr>)) exQueryAll = Response 200 (Some [])"
proof -
  have r: "role exLeader = ''team_leader''" "role (exMember\<lparr>role := ''team_leader''\<rparr>) = ''team_leader''"
    by (simp_all add: ex_defs)
  have l: "ledBy exDb exLeader = [10, 11]" "ledBy exDb exMember = []"
    "ledBy exDb (exMember\<lparr>role := ''team_leader''\<rparr>) = []"
    by (simp_all add: ledBy_def ex_defs)
  have s: "{r \<in> set (racks exDb). r_team r \<in> set (ledBy exDb exLeader) \<and>
                 (falsy (q_siteName exQueryAll) \<or> Some (r_siteName r) = q_siteName exQueryAll)}
           = {exRackDelhi, exRackMumbai}"
    unfolding l by (auto simp: exQueryAll_def falsy_def ex_defs)
  from getRacks_team_leader [OF r(1), of exDb exQueryAll] s
  have 1: "\<exists>rows. getRacks exDb (Some exLeader) exQueryAll = Response 200 (Some rows) \<and>
      row_rack ` set rows = {exRackDelhi, exRackMumbai}"
    by auto
  from getRacks_team_leader [OF r(2), of exDb exQueryAll] l(3)
  have 2: "getRacks exDb (Some (exMember\<lparr>role := ''team_leader''\<rparr>)) exQueryAll = Response 200 (Some [])"
    by auto
  from r 1 2 l(2) show ?thesis by blast
qed

text \<open>The leader leads the Delhi and the Mumbai team; a query for the site Delhi-1 returns
  the Delhi rack only, not the union of both teams' racks.\<close>

theorem getRacks_siteName_counterexample:
  "role exLeader = ''team_leader'' \<and>
   teamLeader exTeamMumbai = Some (u_id exLeader) \<and> exTeamMumbai \<in> set (teams exDb) \<and>
   exRackMumbai \<in> set (racks exDb) \<and> r_team exRackMumbai = t_id exTeamMumbai \<and>
   (\<exists>rows. getRacks exDb (Some exLeader) exQueryDelhi = Response 200 (Some rows) \<and>
      map row_rack rows = [exRackDelhi] \<and> exRackMumbai \<notin> row_rack ` set rows)"
  by (simp add: getRacks_def aggregateRacks_def joinRacks_def lookupUnwind_def matches_def
      falsy_def exQueryDelhi_def Let_def ex_defs)

section \<open>Properties of the export snapshots\<close>

lemma trim_idem_when_clean:
  "s \<noteq> [] \<Longrightarrow> \<not> isSpace (hd s) \<Longrightarrow> \<not> isSpace (last s) \<Longrightarrow> trim s = s"
proof -
  assume s: "s \<noteq> []" and h: "\<not> isSpace (hd s)" and l: "\<not> isSpace (last s)"
  from s h have 1: "dropWhile isSpace s = s" by (cases s) auto
  from s l have "dropWhile isSpace (rev s) = rev s"
    by (cases "rev s") (auto simp: last_rev [symmetric] hd_rev)
  with 1 show ?thesis by (simp add: trim_def)
qed

text \<open>
  C10, as the code has it. When \<open>createExportedSnapshots\<close> answers 201 the store has one
  new row per line item, each with \<open>team\<close> the request's \<open>teamId\<close>, \<open>siteName\<close> the request's
  \<open>siteName\<close> trimmed by the schema, and \<open>exportedBy\<close> the principal's id, whatever the
  line items carry in those fields.
\<close>

theorem createExportedSnapshots_stamps:
  assumes run: "createExportedSnapshots insertFault now st u b = (res, st')"
    and ok: "status res = 201"
  shows "\<exists>teamId siteName snapshots new.
           sb_teamId b = Oid teamId \<and> sb_siteName b = Some siteName \<and>
           sb_snapshots b = Some snapshots \<and>
           exportedRacks st' = exportedRacks st @ new \<and> length new = length snapshots \<and>
           payload res = Some (length snapshots) \<and>
           (\<forall>row \<in> set new. e_team row = teamId \<and> e_siteName row = trim siteName \<and>
                              exportedBy row = u_id u)"
proof -
  from run ok obtain snapshots where sn: "sb_snapshots b = Some snapshots"
    by (cases "sb_snapshots b") (auto simp: createExportedSnapshots_def)
  from run ok sn obtain teamId where ti: "sb_teamId b = Oid teamId"
    by (cases "sb_teamId b") (auto simp: createExportedSnapshots_def split: if_splits)
  from run ok sn ti obtain siteName where si: "sb_siteName b = Some siteName"
    by (cases "sb_siteName b") (auto simp: createExportedSnapshots_def falsy_def split: if_splits)
  let ?docs = "map (toSnapshotDoc teamId siteName (u_id u)) snapshots"
  let ?new = "map (castSnapshotDoc now) ?docs"
  from run ok sn ti si have st': "st' = st\<lparr>exportedRacks := exportedRacks st @ ?new\<rparr>"
    and res: "res = Response 201 (Some (length ?docs))"
    by (auto simp: createExportedSnapshots_def Let_def split: if_splits option.splits)
  have "\<forall>row \<in> set ?new. e_team row = teamId \<and> e_siteName row = trim siteName \<and>
                              exportedBy row = u_id u"
    by (auto simp: castSnapshotDoc_def toSnapshotDoc_def)
  with sn ti si st' res show ?thesis by auto
qed

theorem createExportedSnapshots_stamps_witness:
  "status (fst (createExportedSnapshots None 7 exDb exLeader exSnapshots)) = 201 \<and>
   map (\<lambda>row. (e_team row, e_siteName row, exportedBy row))
     (exportedRacks (snd (createExportedSnapshots None 7 exDb exLeader exSnapshots))) =
     [(10, ''Delhi-1'', 2)]"
proof -
  have t: "trim ''Delhi-1'' = ''Delhi-1''"
    by (rule trim_idem_when_clean) (simp_all add: isSpace_def)
  have v: "validSnapshotDoc (toSnapshotDoc 10 ''Delhi-1'' 2 exItem)"
    by (simp add: validSnapshotDoc_def toSnapshotDoc_def requiredStr_def minZero_def exItem_def t
        trim_idem_when_clean isSpace_def)
  have run: "status (fst (createExportedSnapshots None 7 exDb exLeader exSnapshots)) = 201"
    using v by (simp add: createExportedSnapshots_def exSnapshots_def findTeamById_def falsy_def
        Let_def ex_defs)
  from createExportedSnapshots_stamps [OF prod.collapse [symmetric] run]
  obtain new where
    "exportedRacks (snd (createExportedSnapshots None 7 exDb exLeader exSnapshots)) =
       exportedRacks exDb @ new"
    "length new = 1"
    "\<forall>row \<in> set new. e_team row = 10 \<and> e_siteName row = trim ''Delhi-1'' \<and> exportedBy row = u_id exLeader"
    by (auto simp: exSnapshots_def)
  then show ?thesis using run t
    by (cases new) (auto simp: ex_defs)
qed

text \<open>A request whose \<open>siteName\<close> starts with a blank is answered 201 and the stored row's
  \<open>siteName\<close> is the trimmed text, which differs from the request's.\<close>

theorem createExportedSnapshots_trim_counterexample:
  "sb_siteName exSnapshotsPadded = Some '' Delhi-1'' \<and>
   status (fst (createExportedSnapshots None 7 exDb exLeader exSnapshotsPadded)) = 201 \<and>
   map e_siteName (exportedRacks (snd (createExportedSnapshots None 7 exDb exLeader exSnapshotsPadded)))
     = [''Delhi-1'']"
proof -
  have t: "trim '' Delhi-1'' = ''Delhi-1''"
    by (simp add: trim_def isSpace_def)
  have c: "trim ''SPARES'' = ''SPARES''" "trim ''R1'' = ''R1''" "trim ''P1'' = ''P1''"
    by (rule trim_idem_when_clean; simp add: isSpace_def)+
  have v: "validSnapshotDoc (toSnapshotDoc 10 '' Delhi-1'' 2 exItem)"
    by (simp add: validSnapshotDoc_def toSnapshotDoc_def requiredStr_def minZero_def exItem_def t c)
  show ?thesis using v
    by (simp add: createExportedSnapshots_def exSnapshotsPadded_def findTeamById_def falsy_def
        castSnapshotDoc_def toSnapshotDoc_def t Let_def ex_defs)
qed

section \<open>Properties of the upload ledger\<close>

lemma updateOne_snoc:
  "\<forall>y\<in>set xs. \<not> P y \<Longrightarrow> P x \<Longrightarrow> updateOne P f (xs @ [x]) = xs @ [f x]"
  by (induction xs) auto

lemma deleteOne_snoc:
  "\<forall>y\<in>set xs. \<not> P y \<Longrightarrow> P x \<Longrightarrow> deleteOne P (xs @ [x]) = xs"
  by (induction xs) auto

lemma find_snoc:
  "\<forall>y\<in>set xs. \<not> P y \<Longrightarrow> P x \<Longrightarrow> find P (xs @ [x]) = Some x"
  by (induction xs) auto

lemma session_simps [simp]:
  "txn (startTransaction st s) = Some st"
  "txn (inTxn f s) = map_option f (txn s)"
  "txn (abortTransaction s) = None"
  "txn (endSession s) = None"
  "ended (endSession s) = True"
  by (simp_all add: startTransaction_def inTxn_def abortTransaction_def endSession_def)

lemma uploadTry_failed:
  "uploadTry fails newId now st s reqUser b = (None, st', s') \<Longrightarrow> st' = st"
  by (auto simp: uploadTry_def Let_def commitTransaction_def split: option.splits if_splits)

lemma uploadTry_returned:
  assumes "uploadTry fails newId now st s reqUser b = (Some res, st', s')"
    and "\<forall>m\<in>set (uploadMetadatas st). um_id m \<noteq> newId"
  shows "(status res = 400 \<and> st' = st \<and> (ub_entries b = None \<or> ub_entries b = Some [])) \<or>
         (status res = 201 \<and> ub_entries b \<noteq> None \<and> ub_entries b \<noteq> Some [] \<and>
          \<not> fails CreateMeta \<and> \<not> fails InsertRows \<and> \<not> fails StampCount \<and> \<not> fails CommitTxn \<and>
          payload res = Some (newId, length (orElse (ub_entries b) [])) \<and>
          st' = st\<lparr>uploadMetadatas := uploadMetadatas st @ [uploadedMeta newId now reqUser b],
                   masterDescriptions := masterDescriptions st @ uploadedRows newId b\<rparr>)"
proof (cases "ub_entries b")
  case None
  with assms show ?thesis by (auto simp: uploadTry_def)
next
  case (Some entries)
  show ?thesis
  proof (cases "entries = []")
    case True
    with assms Some show ?thesis by (auto simp: uploadTry_def)
  next
    case False
    let ?meta = "\<lparr>um_id = newId, filename = ub_filename b,
                               totalReceived = Some (length entries), recordCount = None,
                               uploadedBy = map_option u_id reqUser,
                               uploadedByEmail = map_option email reqUser, uploadDate = now\<rparr>"
    have stamp: "updateOne (\<lambda>m. um_id m = newId) (\<lambda>m. m\<lparr>recordCount := Some (length entries)\<rparr>)
            (uploadMetadatas st @ [?meta]) =
          uploadMetadatas st @ [uploadedMeta newId now reqUser b]"
      using assms(2) Some
      by (subst updateOne_snoc) (simp_all add: uploadedMeta_def orElse_def)
    from assms(1) Some False have nf: "\<not> fails CreateMeta" "\<not> fails InsertRows"
        "\<not> fails StampCount" "\<not> fails CommitTxn"
      by (auto simp: uploadTry_def Let_def split: if_splits)
    with assms(1) Some False stamp show ?thesis
      by (auto simp: uploadTry_def Let_def commitTransaction_def working_def orElse_def
          uploadedRows_def startTransaction_def inTxn_def)
  qed
qed

text \<open>
  The handler of controllers/master_controller.js is atomic. For a batch id that no ledger
  entry has yet and whatever steps fail, the session is ended with no open transaction,
  and the store is either the old store with the ledger entry (its \<open>recordCount\<close> stamped)
  and all tagged rows added, when the answer is 201, or exactly the old store.
\<close>

lemma uploadMasterDescriptions_atomic:
  assumes run: "uploadMasterDescriptions fails newId now st reqUser b = (res, st', s')"
    and fresh: "\<forall>m\<in>set (uploadMetadatas st). um_id m \<noteq> newId"
  shows "ended s' \<and> txn s' = None \<and>
         (if status res = 201
          then st' = st\<lparr>uploadMetadatas := uploadMetadatas st @ [uploadedMeta newId now reqUser b],
                        masterDescriptions := masterDescriptions st @ uploadedRows newId b\<rparr> \<and>
               payload res = Some (newId, length (orElse (ub_entries b) []))
          else st' = st)"
proof -
  obtain r st1 s1 where t: "uploadTry fails newId now st startSession reqUser b = (r, st1, s1)"
    by (metis prod_cases3)
  show ?thesis
  proof (cases r)
    case None
    with t run uploadTry_failed [of fails newId now st startSession reqUser b st1 s1]
    show ?thesis by (auto simp: uploadMasterDescriptions_def)
  next
    case (Some res1)
    with t run have "res = res1" "st' = st1" "s' = endSession s1"
      by (auto simp: uploadMasterDescriptions_def)
    with uploadTry_returned [OF t [unfolded Some] fresh] show ?thesis by auto
  qed
qed

lemma uploadMasterDescriptions_succeeds:
  assumes "ub_entries b = Some entries" "entries \<noteq> []"
    and "\<not> fails CreateMeta" "\<not> fails InsertRows" "\<not> fails StampCount" "\<not> fails CommitTxn"
  shows "status (fst (uploadMasterDescriptions fails newId now st reqUser b)) = 201"
  using assms
  by (simp add: uploadMasterDescriptions_def uploadTry_def Let_def commitTransaction_def)


lemma deleteTry_returned:
  assumes "deleteTry fails st s (Oid i) = (Some res, st', s')" and "status res = 200"
  shows "\<exists>meta. find (\<lambda>m. um_id m = i) (uploadMetadatas st) = Some meta \<and>
           payload res = Some (countDocuments (linked meta) st) \<and>
           st' = st\<lparr>masterDescriptions := filter (\<lambda>m. \<not> linked meta m) (masterDescriptions st),
                    uploadMetadatas := deleteOne (\<lambda>m. um_id m = i) (uploadMetadatas st)\<rparr>"
  using assms
  by (auto simp: deleteTry_def Let_def commitTransaction_def working_def orElse_def
      startTransaction_def inTxn_def split: option.splits if_splits)

lemma deleteUploadedFile_ok:
  assumes "deleteUploadedFile fails st (Oid i) = (res, st', s')" and "status res = 200"
  shows "\<exists>meta. find (\<lambda>m. um_id m = i) (uploadMetadatas st) = Some meta \<and>
           payload res = Some (countDocuments (linked meta) st) \<and>
           st' = st\<lparr>masterDescriptions := filter (\<lambda>m. \<not> linked meta m) (masterDescriptions st),
                    uploadMetadatas := deleteOne (\<lambda>m. um_id m = i) (uploadMetadatas st)\<rparr> \<and>
           countDocuments (linked meta) st' = 0 \<and> ended s'"
proof -
  obtain r st1 s1 where t: "deleteTry fails st startSession (Oid i) = (r, st1, s1)"
    by (metis prod_cases3)
  show ?thesis
  proof (cases r)
    case None
    with t assms show ?thesis by (auto simp: deleteUploadedFile_def)
  next
    case (Some res1)
    with t assms have eq: "res = res1" "st' = st1" "s' = endSession s1"
      by (auto simp: deleteUploadedFile_def)
    from deleteTry_returned [OF t [unfolded Some]] assms(2) eq
    show ?thesis by (auto simp: countDocuments_def)
  qed
qed

text \<open>
  C4, as the code has it. Take an upload that answered 201 with a fresh batch id, into a
  store in which no master description was linked to that id or carried the upload's file
  name. Deleting its ledger entry, when answered 200, reports as many deleted records as
  the upload had entries, leaves the store exactly as it was before the upload (the rows
  and the ledger entry are gone), leaves no document matching the linkage query, and ends
  the session.
\<close>

theorem upload_delete_roundtrip:
  assumes up: "uploadMasterDescriptions fails newId now st reqUser b = (res, st1, s1)"
    and up_ok: "status res = 201"
    and fresh: "\<forall>m\<in>set (uploadMetadatas st). um_id m \<noteq> newId"
    and unlinked: "\<forall>m\<in>set (masterDescriptions st).
                     fileId m \<noteq> Some newId \<and> uploadedFileId m \<noteq> Some newId \<and>
                     uploadBatch m \<noteq> Some (ub_filename b)"
    and del: "deleteUploadedFile fails' st1 (Oid newId) = (res', st2, s2)"
    and del_ok: "status res' = 200"
  shows "\<exists>entries. ub_entries b = Some entries \<and>
           length (masterDescriptions st1) = length (masterDescriptions st) + length entries \<and>
           payload res' = Some (length entries) \<and>
           masterDescriptions st2 = masterDescriptions st \<and>
           uploadMetadatas st2 = uploadMetadatas st \<and> st2 = st \<and>
           countDocuments (linked (uploadedMeta newId now reqUser b)) st2 = 0 \<and> ended s2"
proof -
  let ?meta = "uploadedMeta newId now reqUser b"
  let ?rows = "uploadedRows newId b"
  from uploadMasterDescriptions_atomic [OF up fresh] up_ok
  have st1: "st1 = st\<lparr>uploadMetadatas := uploadMetadatas st @ [?meta],
                        masterDescriptions := masterDescriptions st @ ?rows\<rparr>"
    by simp
  have id: "um_id ?meta = newId" and fn: "filename ?meta = ub_filename b"
    by (simp_all add: uploadedMeta_def)
  have found: "find (\<lambda>m. um_id m = newId) (uploadMetadatas st1) = Some ?meta"
    unfolding st1 using fresh id by (simp add: find_snoc)
  have old: "filter (\<lambda>m. \<not> linked ?meta m) (masterDescriptions st) = masterDescriptions st"
    and old0: "filter (linked ?meta) (masterDescriptions st) = []"
    using unlinked by (auto simp: linked_def id fn filter_empty_conv intro!: filter_keeps_all)
  have new: "filter (\<lambda>m. \<not> linked ?meta m) ?rows = []"
    and new1: "filter (linked ?meta) ?rows = ?rows"
    by (auto simp: linked_def id uploadedRows_def filter_empty_conv intro!: filter_keeps_all)
  from deleteUploadedFile_ok [OF del del_ok] found
  have pay: "payload res' = Some (countDocuments (linked ?meta) st1)"
    and st2: "st2 = st1\<lparr>masterDescriptions := filter (\<lambda>m. \<not> linked ?meta m) (masterDescriptions st1),
                         uploadMetadatas := deleteOne (\<lambda>m. um_id m = newId) (uploadMetadatas st1)\<rparr>"
    and zero: "countDocuments (linked ?meta) st2 = 0" and fin: "ended s2"
    by auto
  have metas: "deleteOne (\<lambda>m. um_id m = newId) (uploadMetadatas st1) = uploadMetadatas st"
    unfolding st1 using fresh id by (simp add: deleteOne_snoc)
  have rows: "filter (\<lambda>m. \<not> linked ?meta m) (masterDescriptions st1) = masterDescriptions st"
    unfolding st1 using old new by simp
  have same: "st2 = st"
    unfolding st2 metas rows by (simp add: st1)
  from uploadMasterDescriptions_atomic [OF up fresh] up_ok up
  obtain entries where en: "ub_entries b = Some entries"
    by (cases "ub_entries b") (auto simp: uploadMasterDescriptions_def uploadTry_def)
  then have len: "length ?rows = length entries"
    by (simp add: uploadedRows_def orElse_def)
  have cnt: "countDocuments (linked ?meta) st1 = length entries"
    unfolding countDocuments_def st1 using old0 new1 len by simp
  from en len pay cnt same zero fin show ?thesis
    by (simp add: st1)
qed


lemma triple_collapse: "x = (fst x, fst (snd x), snd (snd x))"
  by simp

theorem upload_delete_roundtrip_witness:
  "status (fst (uploadMasterDescriptions noFault 30 7 exDb (Some exAdmin) exUpload)) = 201 \<and>
   length (masterDescriptions
     (fst (snd (uploadMasterDescriptions noFault 30 7 exDb (Some exAdmin) exUpload)))) = 3 \<and>
   fst (deleteUploadedFile noFault
          (fst (snd (uploadMasterDescriptions noFault 30 7 exDb (Some exAdmin) exUpload)))
          (Oid 30)) = Response 200 (Some 3) \<and>
   fst (snd (deleteUploadedFile noFault
          (fst (snd (uploadMasterDescriptions noFault 30 7 exDb (Some exAdmin) exUpload)))
          (Oid 30))) = exDb"
proof -
  let ?up = "uploadMasterDescriptions noFault 30 7 exDb (Some exAdmin) exUpload"
  let ?del = "deleteUploadedFile noFault (fst (snd ?up)) (Oid 30)"
  have fresh: "\<forall>m\<in>set (uploadMetadatas exDb). um_id m \<noteq> 30"
    by (simp add: exDb_def)
  have unlinked: "\<forall>m\<in>set (masterDescriptions exDb).
      fileId m \<noteq> Some 30 \<and> uploadedFileId m \<noteq> Some 30 \<and> uploadBatch m \<noteq> Some (ub_filename exUpload)"
    by (simp add: exDb_def)
  have up_ok: "status (fst ?up) = 201"
    by (rule uploadMasterDescriptions_succeeds [of _ "[exEntry, exEntry, exEntry]"])
      (simp_all add: exUpload_def noFault_def)
  from uploadMasterDescriptions_atomic [OF triple_collapse fresh] up_ok
  have st1: "fst (snd ?up) =
      exDb\<lparr>uploadMetadatas := uploadMetadatas exDb @ [uploadedMeta 30 7 (Some exAdmin) exUpload],
            masterDescriptions := masterDescriptions exDb @ uploadedRows 30 exUpload\<rparr>"
    by simp
  have del_ok: "status (fst ?del) = 200"
    unfolding st1
    by (simp add: deleteUploadedFile_def deleteTry_def uploadedMeta_def noFault_def Let_def
        commitTransaction_def startSession_def working_def orElse_def exDb_def)
  from upload_delete_roundtrip [OF triple_collapse up_ok fresh unlinked triple_collapse del_ok]
  have "length (masterDescriptions (fst (snd ?up))) = 3" "payload (fst ?del) = Some 3"
    "fst (snd ?del) = exDb"
    by (auto simp: exUpload_def exDb_def)
  with up_ok del_ok show ?thesis
    by (cases "fst ?del") simp
qed

text \<open>Two uploads of three entries under the same file name; deleting the first ledger
  entry reports six deleted records and removes the second upload's rows too, while the
  second ledger entry stays.\<close>

theorem delete_shared_filename_counterexample:
  "length (orElse (ub_entries exUpload) []) = 3 \<and>
   fst (deleteUploadedFile noFault
          (fst (snd (uploadMasterDescriptions noFault 31 8
             (fst (snd (uploadMasterDescriptions noFault 30 7 exDb None exUpload))) None exUpload)))
          (Oid 30)) = Response 200 (Some 6) \<and>
   map um_id (uploadMetadatas (fst (snd (deleteUploadedFile noFault
          (fst (snd (uploadMasterDescriptions noFault 31 8
             (fst (snd (uploadMasterDescriptions noFault 30 7 exDb None exUpload))) None exUpload)))
          (Oid 30))))) = [31] \<and>
   masterDescriptions (fst (snd (deleteUploadedFile noFault
          (fst (snd (uploadMasterDescriptions noFault 31 8
             (fst (snd (uploadMasterDescriptions noFault 30 7 exDb None exUpload))) None exUpload)))
          (Oid 30)))) = []"
  by (simp add: deleteUploadedFile_def deleteTry_def uploadMasterDescriptions_def uploadTry_def
      noFault_def Let_def commitTransaction_def startSession_def working_def orElse_def
      startTransaction_def inTxn_def endSession_def countDocuments_def linked_def
      exUpload_def exDb_def)

text \<open>
  C3 at a concrete request, for the handler of controllers/uploadcontroller.js. When the
  creation of the ledger entry fails the answer is 500 and the three rows stay in the
  store with no ledger entry; when nothing fails the rows are stored without batch id and
  without file name. (The handler of controllers/master_controller.js is atomic:
  \<open>uploadMasterDescriptions_atomic\<close>.)
\<close>

theorem uploadcontroller_not_atomic:
  "uploadcontroller_uploadMasterDescriptions (faultAt CreateMeta) 30 7 exDb exUpload =
     (Response 500 None,
      exDb\<lparr>masterDescriptions :=
             [\<lparr>md_partNo = ''P1'', md_description = ''Bolt'', md_ndp = Some 10, md_mrp = None,
               uploadBatch = None, fileId = None, uploadedFileId = None\<rparr>,
              \<lparr>md_partNo = ''P1'', md_description = ''Bolt'', md_ndp = Some 10, md_mrp = None,
               uploadBatch = None, fileId = None, uploadedFileId = None\<rparr>,
              \<lparr>md_partNo = ''P1'', md_description = ''Bolt'', md_ndp = Some 10, md_mrp = None,
               uploadBatch = None, fileId = None, uploadedFileId = None\<rparr>]\<rparr>) \<and>
   status (fst (uploadcontroller_uploadMasterDescriptions noFault 30 7 exDb exUpload)) = 201 \<and>
   map (\<lambda>m. (fileId m, uploadBatch m))
     (masterDescriptions (snd (uploadcontroller_uploadMasterDescriptions noFault 30 7 exDb exUpload)))
     = [(None, None), (None, None), (None, None)]"
  by (simp add: uploadcontroller_uploadMasterDescriptions_def faultAt_def noFault_def Let_def
      exUpload_def exEntry_def exDb_def)

end
